theory Spec2Isabelle
  imports Complex_Main "HOL-Library.AList" "HOL-Library.Sublist"
begin

section \<open>Python primitives used by the textconv script\<close>

text \<open>
  The script \<^verbatim>\<open>als-textconv-semantic.py\<close> (embedded in \<^verbatim>\<open>ableton_git_setup.py\<close>)
  works on text taken from an XML tree. Python's \<^verbatim>\<open>str\<close> is modelled as \<^typ>\<open>string\<close>
  for ASCII text, \<^verbatim>\<open>int\<close> as \<^typ>\<open>int\<close>, and \<^verbatim>\<open>float\<close> as the binary64 values
  with their rounding, signed zeros, infinities and NaN.
\<close>

subsection \<open>Text\<close>

definition is_digit :: "char \<Rightarrow> bool" where
  "is_digit c = (48 \<le> (of_char c :: nat) \<and> (of_char c :: nat) \<le> 57)"

definition digit_val :: "char \<Rightarrow> nat" where
  "digit_val c = of_char c - 48"

definition digit_char :: "nat \<Rightarrow> char" where
  "digit_char n = ''0123456789'' ! n"

definition is_ws :: "char \<Rightarrow> bool" where
  "is_ws c = (c = CHR '' '' \<or> (9 \<le> (of_char c :: nat) \<and> (of_char c :: nat) \<le> 13)
              \<or> (28 \<le> (of_char c :: nat) \<and> (of_char c :: nat) \<le> 31))"

text \<open>\<^verbatim>\<open>str.strip()\<close>.\<close>

definition strip :: "string \<Rightarrow> string" where
  "strip s = rev (dropWhile is_ws (rev (dropWhile is_ws s)))"

text \<open>\<^verbatim>\<open>str.lower()\<close> on ASCII letters.\<close>

definition lower_char :: "char \<Rightarrow> char" where
  "lower_char c =
     (case map_of (zip ''ABCDEFGHIJKLMNOPQRSTUVWXYZ'' ''abcdefghijklmnopqrstuvwxyz'') c of
        None \<Rightarrow> c
      | Some l \<Rightarrow> l)"

definition lower :: "string \<Rightarrow> string" where
  "lower s = map lower_char s"

text \<open>\<^verbatim>\<open>sub in s\<close>, \<^verbatim>\<open>s.startswith(p)\<close>, \<^verbatim>\<open>s.endswith(p)\<close>.\<close>

fun startswith :: "string \<Rightarrow> string \<Rightarrow> bool" where
  "startswith s [] = True"
| "startswith [] (p # ps) = False"
| "startswith (c # cs) (p # ps) = (c = p \<and> startswith cs ps)"

definition endswith :: "string \<Rightarrow> string \<Rightarrow> bool" where
  "endswith s p = startswith (rev s) (rev p)"

fun contains :: "string \<Rightarrow> string \<Rightarrow> bool" where
  "contains [] sub = (sub = [])"
| "contains (c # cs) sub = (startswith (c # cs) sub \<or> contains cs sub)"

text \<open>\<^verbatim>\<open>str(n)\<close> for an integer.\<close>

function show_nat :: "nat \<Rightarrow> string" where
  "show_nat n = (if n < 10 then [digit_char n] else show_nat (n div 10) @ [digit_char (n mod 10)])"
  by pat_completeness auto
termination
  by (relation "measure id") auto

declare show_nat.simps [simp del]

definition show_int :: "int \<Rightarrow> string" where
  "show_int i = (if i < 0 then CHR ''-'' # show_nat (nat (- i)) else show_nat (nat i))"

subsection \<open>Numbers in text\<close>

text \<open>
  A digit part is a run of decimal digits in which single underscores may separate digits.
  The flag says whether the previous character was a digit.
\<close>

fun digitpart_from :: "nat \<Rightarrow> bool \<Rightarrow> string \<Rightarrow> nat option" where
  "digitpart_from a b [] = (if b then Some a else None)"
| "digitpart_from a b (c # cs) =
     (if is_digit c then digitpart_from (10 * a + digit_val c) True cs
      else if c = CHR ''_'' \<and> b then digitpart_from a False cs
      else None)"

definition digitpart :: "string \<Rightarrow> nat option" where
  "digitpart s = digitpart_from 0 False s"

text \<open>Splits an optional leading sign off: the flag is \<open>True\<close> for a minus sign.\<close>

fun split_sign :: "string \<Rightarrow> bool \<times> string" where
  "split_sign [] = (False, [])"
| "split_sign (c # cs) =
     (if c = CHR ''-'' then (True, cs) else if c = CHR ''+'' then (False, cs) else (False, c # cs))"

text \<open>\<^verbatim>\<open>int(s)\<close> for text: \<open>None\<close> stands for the \<^verbatim>\<open>ValueError\<close> it raises.\<close>

definition py_int :: "string \<Rightarrow> int option" where
  "py_int s =
     (case split_sign (strip s) of (neg, body) \<Rightarrow>
        (case digitpart body of
           None \<Rightarrow> None
         | Some n \<Rightarrow> Some (if neg then - int n else int n)))"

text \<open>
  The exact value of a decimal literal of Python's float grammar
  (\<^verbatim>\<open>(digits [. [digits]] | . digits) [e [sign] digits]\<close>), as a real number.
\<close>

definition split_at :: "(char \<Rightarrow> bool) \<Rightarrow> string \<Rightarrow> string \<times> string option" where
  "split_at P s =
     (case dropWhile (\<lambda>c. \<not> P c) s of
        [] \<Rightarrow> (s, None)
      | _ # r \<Rightarrow> (takeWhile (\<lambda>c. \<not> P c) s, Some r))"

definition mantissa :: "string \<Rightarrow> real option" where
  "mantissa s =
     (case split_at (\<lambda>c. c = CHR ''.'') s of
        (ip, None) \<Rightarrow> map_option real (digitpart ip)
      | (ip, Some fp) \<Rightarrow>
          (if fp = [] then map_option real (digitpart ip)
           else (case digitpart fp of
                   None \<Rightarrow> None
                 | Some f \<Rightarrow>
                    (let frac = real f / 10 ^ length (filter is_digit fp)
                     in if ip = [] then Some frac
                        else map_option (\<lambda>i. real i + frac) (digitpart ip)))))"

definition exponent :: "string \<Rightarrow> int option" where
  "exponent s =
     (case split_sign s of (neg, body) \<Rightarrow>
        map_option (\<lambda>n. if neg then - int n else int n) (digitpart body))"

definition scale10 :: "real \<Rightarrow> int \<Rightarrow> real" where
  "scale10 m e = (if 0 \<le> e then m * 10 ^ nat e else m / 10 ^ nat (- e))"

definition decimal :: "string \<Rightarrow> real option" where
  "decimal body =
     (case split_at (\<lambda>c. c = CHR ''e'' \<or> c = CHR ''E'') body of (ms, es) \<Rightarrow>
        (case mantissa ms of
           None \<Rightarrow> None
         | Some m \<Rightarrow>
            (case (case es of None \<Rightarrow> Some 0 | Some e \<Rightarrow> exponent e) of
               None \<Rightarrow> None
             | Some e \<Rightarrow> Some (scale10 m e))))"

subsection \<open>Binary64 floats\<close>

text \<open>
  A Python \<^verbatim>\<open>float\<close> is an IEEE 754 binary64 value: a number with a sign bit (so that
  there are two zeros) and a magnitude, an infinity with a sign, or a NaN. The magnitude
  of \<open>Num neg m\<close> is the real number \<open>m \<ge> 0\<close>, one of the binary64 values.
\<close>

datatype pyfloat = Num bool real | Infty bool | NaN

definition num_val :: "bool \<Rightarrow> real \<Rightarrow> real" where
  "num_val neg m = (if neg then - m else m)"

definition pow2 :: "int \<Rightarrow> real" where
  "pow2 e = (if 0 \<le> e then 2 ^ nat e else 1 / 2 ^ nat (- e))"

text \<open>
  The binary exponent of a positive magnitude \<open>m\<close>, that is the \<open>e\<close> with
  \<open>2\<^sup>e \<le> m < 2\<^sup>e\<^sup>+\<^sup>1\<close>, found by halving or doubling. The search stops after 1100 steps:
  beyond that the magnitude overflows or is below the smallest subnormal.
\<close>

function scale_down :: "nat \<Rightarrow> real \<Rightarrow> int \<Rightarrow> int" where
  "scale_down fuel m e = (if fuel = 0 \<or> m < 2 then e else scale_down (fuel - 1) (m / 2) (e + 1))"
  by pat_completeness auto
termination
  by (relation "measure (\<lambda>(fuel, m, e). fuel)") auto

function scale_up :: "nat \<Rightarrow> real \<Rightarrow> int \<Rightarrow> int" where
  "scale_up fuel m e = (if fuel = 0 \<or> 1 \<le> m then e else scale_up (fuel - 1) (m * 2) (e - 1))"
  by pat_completeness auto
termination
  by (relation "measure (\<lambda>(fuel, m, e). fuel)") auto

declare scale_down.simps [simp del] scale_up.simps [simp del]

definition expo :: "real \<Rightarrow> int" where
  "expo m = (if 1 \<le> m then scale_down 1100 m 0 else scale_up 1100 m 0)"

text \<open>Rounding to the nearest integer, ties to the even one.\<close>

definition round_half_even :: "real \<Rightarrow> int" where
  "round_half_even x =
     (let f = \<lfloor>x\<rfloor>; d = x - of_int f
      in if d < 1 / 2 then f else if 1 / 2 < d then f + 1 else if even f then f else f + 1)"

text \<open>
  Rounding a magnitude to binary64, to nearest with ties to even: 53 significant bits for
  a normal number, multiples of \<open>2\<^sup>-\<^sup>1\<^sup>0\<^sup>7\<^sup>4\<close> below \<open>2\<^sup>-\<^sup>1\<^sup>0\<^sup>2\<^sup>2\<close>. A result of \<open>2\<^sup>1\<^sup>0\<^sup>2\<^sup>4\<close> or more
  is an overflow to infinity.
\<close>

definition round_mag :: "real \<Rightarrow> real" where
  "round_mag m =
     (if m = 0 then 0
      else (let u = pow2 (max (expo m) (- 1022) - 52)
            in of_int (round_half_even (m / u)) * u))"

definition to_float :: "bool \<Rightarrow> real \<Rightarrow> pyfloat" where
  "to_float neg m = (let r = round_mag m in if r < 2 ^ 1024 then Num neg r else Infty neg)"

text \<open>The value of a positive float literal of the source text, such as \<^verbatim>\<open>0.01\<close>.\<close>

definition lit :: "real \<Rightarrow> real" where
  "lit x = round_mag x"

text \<open>
  \<^verbatim>\<open>float(s)\<close> for text: white space is stripped, a sign is optional, and the rest is
  \<^verbatim>\<open>inf\<close>, \<^verbatim>\<open>infinity\<close> or \<^verbatim>\<open>nan\<close> in any case, or a decimal literal, which is
  rounded to binary64. \<open>None\<close> stands for the \<^verbatim>\<open>ValueError\<close> raised on other text.
\<close>

definition py_float :: "string \<Rightarrow> pyfloat option" where
  "py_float s =
     (case split_sign (strip s) of (neg, body) \<Rightarrow>
        if lower body = ''inf'' \<or> lower body = ''infinity'' then Some (Infty neg)
        else if lower body = ''nan'' then Some NaN
        else map_option (to_float neg) (decimal body))"

text \<open>
  Comparisons of a float with a finite number (\<^verbatim>\<open>x < c\<close>, \<^verbatim>\<open>x <= c\<close>, \<^verbatim>\<open>x == c\<close>);
  every comparison with a NaN is false. The others are derived: \<^verbatim>\<open>x > c\<close> holds when
  neither \<^verbatim>\<open>x <= c\<close> nor \<open>x\<close> is a NaN.
\<close>

fun flt_lt :: "pyfloat \<Rightarrow> real \<Rightarrow> bool" where
  "flt_lt (Num neg m) c = (num_val neg m < c)"
| "flt_lt (Infty neg) c = neg"
| "flt_lt NaN c = False"

fun flt_le :: "pyfloat \<Rightarrow> real \<Rightarrow> bool" where
  "flt_le (Num neg m) c = (num_val neg m \<le> c)"
| "flt_le (Infty neg) c = neg"
| "flt_le NaN c = False"

fun flt_eq :: "pyfloat \<Rightarrow> real \<Rightarrow> bool" where
  "flt_eq (Num neg m) c = (num_val neg m = c)"
| "flt_eq (Infty neg) c = False"
| "flt_eq NaN c = False"

definition flt_gt :: "pyfloat \<Rightarrow> real \<Rightarrow> bool" where
  "flt_gt x c = (x \<noteq> NaN \<and> \<not> flt_le x c)"

definition flt_ge :: "pyfloat \<Rightarrow> real \<Rightarrow> bool" where
  "flt_ge x c = (x \<noteq> NaN \<and> \<not> flt_lt x c)"

text \<open>\<^verbatim>\<open>x < y\<close> for two floats, the comparison that \<^verbatim>\<open>list.sort\<close> uses.\<close>

fun flt_less :: "pyfloat \<Rightarrow> pyfloat \<Rightarrow> bool" where
  "flt_less NaN y = False"
| "flt_less x NaN = False"
| "flt_less (Infty neg) (Infty neg') = (neg \<and> \<not> neg')"
| "flt_less (Infty neg) (Num neg' m') = neg"
| "flt_less (Num neg m) (Infty neg') = (\<not> neg')"
| "flt_less (Num neg m) (Num neg' m') = (num_val neg m < num_val neg' m')"

text \<open>\<^verbatim>\<open>abs(x)\<close>.\<close>

fun flt_abs :: "pyfloat \<Rightarrow> pyfloat" where
  "flt_abs (Num neg m) = Num False m"
| "flt_abs (Infty neg) = Infty False"
| "flt_abs NaN = NaN"

text \<open>\<^verbatim>\<open>x * c\<close> and \<^verbatim>\<open>x / c\<close> for a positive finite \<open>c\<close>: the exact result, rounded.\<close>

fun flt_mul :: "pyfloat \<Rightarrow> real \<Rightarrow> pyfloat" where
  "flt_mul (Num neg m) c = to_float neg (m * c)"
| "flt_mul (Infty neg) c = Infty neg"
| "flt_mul NaN c = NaN"

fun flt_div :: "pyfloat \<Rightarrow> real \<Rightarrow> pyfloat" where
  "flt_div (Num neg m) c = to_float neg (m / c)"
| "flt_div (Infty neg) c = Infty neg"
| "flt_div NaN c = NaN"

text \<open>
  \<^verbatim>\<open>x + y\<close>: the exact sum, rounded. An exact zero sum is \<open>+0\<close> unless both operands are
  negative (zeros); infinities of opposite sign give a NaN.
\<close>

fun flt_add :: "pyfloat \<Rightarrow> pyfloat \<Rightarrow> pyfloat" where
  "flt_add NaN y = NaN"
| "flt_add x NaN = NaN"
| "flt_add (Infty neg) (Infty neg') = (if neg = neg' then Infty neg else NaN)"
| "flt_add (Infty neg) (Num neg' m') = Infty neg"
| "flt_add (Num neg m) (Infty neg') = Infty neg'"
| "flt_add (Num neg m) (Num neg' m') =
     (let r = num_val neg m + num_val neg' m'
      in if r = 0 then Num (neg \<and> neg') 0 else to_float (r < 0) \<bar>r\<bar>)"

text \<open>
  \<^verbatim>\<open>int(x)\<close> for a float truncates towards zero; \<open>None\<close> stands for the
  \<^verbatim>\<open>ValueError\<close> on a NaN and the \<^verbatim>\<open>OverflowError\<close> on an infinity.
\<close>

fun int_of :: "pyfloat \<Rightarrow> int option" where
  "int_of (Num neg m) = Some (if neg then - \<lfloor>m\<rfloor> else \<lfloor>m\<rfloor>)"
| "int_of (Infty neg) = None"
| "int_of NaN = None"

text \<open>
  \<^verbatim>\<open>x // 4\<close> and \<^verbatim>\<open>x % 4\<close>, the only floor division and remainder the script takes.
  CPython computes both from the C \<^verbatim>\<open>fmod\<close>, which is exact and has the sign of \<open>x\<close>: the
  quotient \<open>\<lfloor>x / 4\<rfloor>\<close> is exact, and a negative \<^verbatim>\<open>fmod\<close> has 4 added to it, which
  rounds. For an infinity or a NaN both are NaN.
\<close>

fun floordiv4 :: "pyfloat \<Rightarrow> pyfloat" where
  "floordiv4 (Num neg m) =
     (let q = \<lfloor>num_val neg m / 4\<rfloor> in Num (if q = 0 then neg else q < 0) \<bar>of_int q\<bar>)"
| "floordiv4 (Infty neg) = NaN"
| "floordiv4 NaN = NaN"

text \<open>The magnitude of \<^verbatim>\<open>fmod(x, 4)\<close> for a magnitude of \<open>x\<close>.\<close>

definition fmod4 :: "real \<Rightarrow> real" where
  "fmod4 m = m - 4 * of_int \<lfloor>m / 4\<rfloor>"

fun mod4 :: "pyfloat \<Rightarrow> pyfloat" where
  "mod4 (Num neg m) =
     (let r = fmod4 m
      in if r = 0 then Num False 0 else if neg then to_float False (4 - r) else Num False r)"
| "mod4 (Infty neg) = NaN"
| "mod4 NaN = NaN"

text \<open>
  \<^verbatim>\<open>math.log10(x)\<close> for \<open>x\<close> that is not zero or negative. For a finite \<open>x\<close> the result
  comes from the C library, whose rounding the language does not fix: \<open>lg\<close> stands for
  that function on the positive binary64 values and is a parameter of everything that
  formats decibels. Its result is taken as a binary64 value, which changes nothing for a
  function that returns such values, as the C library does.
\<close>

fun log10_flt :: "(real \<Rightarrow> real) \<Rightarrow> pyfloat \<Rightarrow> pyfloat" where
  "log10_flt lg (Num neg m) = (let r = lg m in to_float (r < 0) \<bar>r\<bar>)"
| "log10_flt lg (Infty neg) = Infty neg"
| "log10_flt lg NaN = NaN"

subsection \<open>Format codes\<close>

definition pad_left :: "nat \<Rightarrow> string \<Rightarrow> string" where
  "pad_left d s = replicate (d - length s) (CHR ''0'') @ s"

text \<open>
  The digits of \<^verbatim>\<open>{m:.<d>f}\<close> for a magnitude: the exact binary value rounded to \<open>d\<close>
  decimals, ties to even.
\<close>

definition fixed :: "nat \<Rightarrow> real \<Rightarrow> string" where
  "fixed d m =
     (let n = nat (round_half_even (m * 10 ^ d))
      in show_nat (n div 10 ^ d) @ (if d = 0 then [] else ''.'' @ pad_left d (show_nat (n mod 10 ^ d))))"

text \<open>The format codes \<^verbatim>\<open>{x:.<d>f}\<close>, \<^verbatim>\<open>{x:+.<d>f}\<close> and \<^verbatim>\<open>{i:+d}\<close>.\<close>

fun fmt_f :: "nat \<Rightarrow> pyfloat \<Rightarrow> string" where
  "fmt_f d (Num neg m) = (if neg then ''-'' else []) @ fixed d m"
| "fmt_f d (Infty neg) = (if neg then ''-'' else []) @ ''inf''"
| "fmt_f d NaN = ''nan''"

fun fmt_plus_f :: "nat \<Rightarrow> pyfloat \<Rightarrow> string" where
  "fmt_plus_f d (Num neg m) = (if neg then ''-'' else ''+'') @ fixed d m"
| "fmt_plus_f d (Infty neg) = (if neg then ''-'' else ''+'') @ ''inf''"
| "fmt_plus_f d NaN = ''+nan''"

definition fmt_plus_d :: "int \<Rightarrow> string" where
  "fmt_plus_d i = (if i < 0 then show_int i else ''+'' @ show_int i)"

text \<open>\<^verbatim>\<open>str(x)\<close> for a float that is not finite.\<close>

fun str_nonfinite :: "pyfloat \<Rightarrow> string" where
  "str_nonfinite (Infty neg) = (if neg then ''-inf'' else ''inf'')"
| "str_nonfinite x = ''nan''"

section \<open>Formatters\<close>

text \<open>
  Each formatter converts its argument with \<^verbatim>\<open>float(...)\<close> inside a \<^verbatim>\<open>try\<close> whose
  \<^verbatim>\<open>except\<close> branch returns a fixed text. The \<open>_val\<close> function is the body of the
  \<^verbatim>\<open>try\<close> after the conversion, with \<open>None\<close> for an exception raised in it.
\<close>

definition format_db_val :: "(real \<Rightarrow> real) \<Rightarrow> pyfloat \<Rightarrow> string option" where
  "format_db_val lg val =
     (if flt_le val 0 then Some ''-inf''
      else (let db = flt_mul (log10_flt lg val) 20
            in if flt_lt (flt_abs db) (lit (1 / 10)) then Some ''0dB''
               else (case int_of db of
                       None \<Rightarrow> None
                     | Some i \<Rightarrow> if \<not> flt_eq db (of_int i) then Some (fmt_plus_f 1 db @ ''dB'')
                                 else Some (fmt_plus_d i @ ''dB''))))"

text \<open>\<^verbatim>\<open>format_db\<close> applied to a float, as \<^verbatim>\<open>get_clip_adjustments\<close> calls it.\<close>

definition format_db_flt :: "(real \<Rightarrow> real) \<Rightarrow> pyfloat \<Rightarrow> string" where
  "format_db_flt lg val = (case format_db_val lg val of None \<Rightarrow> ''0dB'' | Some r \<Rightarrow> r)"

definition format_db :: "(real \<Rightarrow> real) \<Rightarrow> string \<Rightarrow> string" where
  "format_db lg linear_value =
     (case py_float linear_value of None \<Rightarrow> ''0dB'' | Some val \<Rightarrow> format_db_flt lg val)"

definition format_pan_val :: "pyfloat \<Rightarrow> string option" where
  "format_pan_val val =
     (if flt_lt (flt_abs val) (lit (1 / 100)) then Some ''C''
      else (case int_of (flt_mul (flt_abs val) 50) of
              None \<Rightarrow> None
            | Some pct \<Rightarrow> Some (if flt_lt val 0 then ''L'' @ show_int pct else ''R'' @ show_int pct)))"

definition format_pan :: "string \<Rightarrow> string" where
  "format_pan pan_value =
     (case py_float pan_value of
        None \<Rightarrow> ''C''
      | Some val \<Rightarrow> (case format_pan_val val of None \<Rightarrow> ''C'' | Some r \<Rightarrow> r))"

definition NOTE_NAMES :: "string list" where
  "NOTE_NAMES = [''C'', ''C#'', ''D'', ''D#'', ''E'', ''F'', ''F#'', ''G'', ''G#'', ''A'', ''A#'', ''B'']"

definition midi_note_name :: "int \<Rightarrow> string" where
  "midi_note_name pitch =
     (let octave = pitch div 12 - 2; note = NOTE_NAMES ! nat (pitch mod 12)
      in note @ show_int octave)"

definition format_param_val :: "pyfloat \<Rightarrow> string \<Rightarrow> string option" where
  "format_param_val fval name =
     (let name_lower = lower name
      in if (flt_eq fval 0 \<or> flt_eq fval 1)
            \<and> (\<not> contains name_lower ''time'' \<and> \<not> contains name_lower ''rate''
                 \<and> (contains name_lower ''on'' \<or> contains name_lower ''sync''
                      \<or> contains name_lower ''link'' \<or> contains name_lower ''freeze''))
         then Some (if flt_eq fval 1 then ''on'' else ''off'')
         else if flt_ge fval 0 \<and> flt_le fval 1
                 \<and> (contains name_lower ''wet'' \<or> contains name_lower ''mix''
                      \<or> contains name_lower ''amount'' \<or> contains name_lower ''feedback''
                      \<or> contains name_lower ''depth'' \<or> contains name_lower ''gain''
                      \<or> contains name_lower ''drive'' \<or> contains name_lower ''resonance'')
         then Some (fmt_f 0 (flt_mul fval 100) @ ''%'')
         else if contains name_lower ''freq'' \<and> \<not> contains name_lower ''mod''
         then Some (if flt_ge fval 1000 then fmt_f 1 (flt_div fval 1000) @ ''kHz'' else fmt_f 0 fval @ ''Hz'')
         else if (contains name_lower ''timesec'' \<or> contains name_lower ''attack''
                  \<or> contains name_lower ''release'' \<or> contains name_lower ''predelay'')
                 \<and> flt_lt fval 10
         then Some (if flt_lt fval 1 then fmt_f 0 (flt_mul fval 1000) @ ''ms'' else fmt_f 2 fval @ ''s'')
         else (case int_of fval of
                 None \<Rightarrow> None
               | Some i \<Rightarrow> if flt_eq fval (of_int i) then Some (show_int i) else Some (fmt_f 2 fval)))"

definition format_param :: "string \<Rightarrow> string \<Rightarrow> string" where
  "format_param v name =
     (case py_float v of
        None \<Rightarrow> v
      | Some fval \<Rightarrow> (case format_param_val fval name of None \<Rightarrow> v | Some r \<Rightarrow> r))"

definition format_beats_val :: "pyfloat \<Rightarrow> string option" where
  "format_beats_val beats =
     (case int_of (floordiv4 beats) of
        None \<Rightarrow> None
      | Some bar \<Rightarrow> Some (show_int (bar + 1) @ ''.'' @ fmt_f 1 (flt_add (mod4 beats) (Num False 1))))"

definition format_beats :: "string \<Rightarrow> string" where
  "format_beats beat_str =
     (case py_float beat_str of
        None \<Rightarrow> beat_str
      | Some beats \<Rightarrow> (case format_beats_val beats of None \<Rightarrow> beat_str | Some r \<Rightarrow> r))"

section \<open>The document tree\<close>

text \<open>
  An \<^verbatim>\<open>xml.etree.ElementTree.Element\<close>: tag, attributes and ordered children. Element
  text is never read by the script.
\<close>

datatype xml = Elem (tag: string) (attrib: "(string \<times> string) list") (children: "xml list")

text \<open>\<^verbatim>\<open>elem.get(key, default)\<close>.\<close>

definition get :: "xml \<Rightarrow> string \<Rightarrow> string \<Rightarrow> string" where
  "get e key dflt = (case map_of (attrib e) key of None \<Rightarrow> dflt | Some v \<Rightarrow> v)"

text \<open>\<^verbatim>\<open>elem.iter()\<close>: the element and all its descendants in document order.\<close>

fun iter :: "xml \<Rightarrow> xml list" where
  "iter (Elem t a cs) = Elem t a cs # concat (map iter cs)"

definition descendants :: "xml \<Rightarrow> xml list" where
  "descendants e = concat (map iter (children e))"

text \<open>
  The paths the script uses are built from two kinds of step: \<^verbatim>\<open>Tag\<close> selects the
  children with that tag, and \<^verbatim>\<open>//Tag\<close> (written \<^verbatim>\<open>.//Tag\<close> at the start of a path)
  selects the descendants with that tag. As in \<^verbatim>\<open>ElementPath.iterfind\<close>, each step maps
  over the results of the previous one without removing duplicates.
\<close>

datatype step = Child string | Desc string

fun select :: "step \<Rightarrow> xml list \<Rightarrow> xml list" where
  "select (Child t) result = concat (map (\<lambda>e. filter (\<lambda>c. tag c = t) (children e)) result)"
| "select (Desc t) result = concat (map (\<lambda>e. filter (\<lambda>c. tag c = t) (descendants e)) result)"

definition findall :: "xml \<Rightarrow> step list \<Rightarrow> xml list" where
  "findall e path = fold select path [e]"

definition find_first :: "xml \<Rightarrow> step list \<Rightarrow> xml option" where
  "find_first e path = (case findall e path of [] \<Rightarrow> None | x # _ \<Rightarrow> Some x)"

text \<open>\<^verbatim>\<open>get_attr(elem, path, default)\<close>; no caller passes \<^verbatim>\<open>None\<close> for the element.\<close>

definition get_attr :: "xml \<Rightarrow> step list \<Rightarrow> string \<Rightarrow> string" where
  "get_attr elem path dflt =
     (case find_first elem path of None \<Rightarrow> dflt | Some node \<Rightarrow> get node ''Value'' dflt)"

section \<open>Clip extractors\<close>

text \<open>An exception that leaves a function: the kind, and the text that caused it.\<close>

datatype exn = ValueError string | ParseError string

definition WARP_MODES :: "(int \<times> string) list" where
  "WARP_MODES = [(0, ''Beats''), (1, ''Tones''), (2, ''Texture''), (3, ''Re-Pitch''),
                 (4, ''Complex''), (6, ''Complex Pro'')]"

record warp_info =
  mode :: string
  markers :: "nat option"

text \<open>
  \<^verbatim>\<open>get_warp_info\<close>: the conversion \<^verbatim>\<open>int(warp_mode)\<close> is not inside a \<^verbatim>\<open>try\<close>, so its
  \<^verbatim>\<open>ValueError\<close> leaves the function.
\<close>

definition get_warp_info :: "xml \<Rightarrow> exn + warp_info option" where
  "get_warp_info clip =
     (if get_attr clip [Child ''IsWarped''] ''true'' \<noteq> ''true'' then Inr None
      else (let warp_mode = get_attr clip [Child ''WarpMode''] ''0''
            in case py_int warp_mode of
                 None \<Rightarrow> Inl (ValueError warp_mode)
               | Some m \<Rightarrow>
                  (let mode_name = (case map_of WARP_MODES m of None \<Rightarrow> ''Unknown'' | Some n \<Rightarrow> n);
                       marker_count = length (findall clip [Desc ''WarpMarkers'', Child ''WarpMarker''])
                   in if 2 < marker_count
                      then Inr (Some \<lparr>mode = mode_name, markers = Some marker_count\<rparr>)
                      else if 0 < marker_count
                      then Inr (Some \<lparr>mode = mode_name, markers = None\<rparr>)
                      else Inr None)))"

text \<open>\<^verbatim>\<open>os.path.basename\<close> with the POSIX separator.\<close>

definition basename :: "string \<Rightarrow> string" where
  "basename p = rev (takeWhile (\<lambda>c. c \<noteq> CHR ''/'') (rev p))"

definition get_audio_ref :: "xml \<Rightarrow> string option" where
  "get_audio_ref clip =
     (let by_path = (case find_first clip [Desc ''SampleRef'', Child ''FileRef'', Child ''RelativePath''] of
                       None \<Rightarrow> None
                     | Some r \<Rightarrow> (let path = get r ''Value'' [] in if path \<noteq> [] then Some (basename path) else None))
      in case by_path of
           Some b \<Rightarrow> Some b
         | None \<Rightarrow>
            (case find_first clip [Desc ''SampleRef'', Child ''FileRef'', Child ''Name''] of
               None \<Rightarrow> None
             | Some r \<Rightarrow> Some (get r ''Value'' [])))"

definition get_clip_adjustments :: "(real \<Rightarrow> real) \<Rightarrow> xml \<Rightarrow> string list" where
  "get_clip_adjustments lg clip =
     (case py_float (get_attr clip [Child ''SampleVolume''] ''1'') of
        None \<Rightarrow> []
      | Some vol \<Rightarrow> if flt_gt (flt_abs (flt_add vol (Num True 1))) (lit (1 / 100))
                    then [format_db_flt lg vol] else [])
     @ (case py_float (get_attr clip [Child ''PitchCoarse''] ''0'') of
          None \<Rightarrow> []
        | Some tr \<Rightarrow>
           (case int_of tr of
              None \<Rightarrow> []
            | Some t \<Rightarrow> if t \<noteq> 0 then [fmt_plus_d t @ ''st''] else []))
     @ (case py_float (get_attr clip [Child ''PitchFine''] ''0'') of
          None \<Rightarrow> []
        | Some f \<Rightarrow> if flt_gt (flt_abs f) (lit (1 / 10)) then [fmt_plus_f 0 f @ ''ct''] else [])"

definition fade_text :: "string \<Rightarrow> pyfloat \<Rightarrow> string" where
  "fade_text label x =
     (if flt_ge x 1 then label @ fmt_f 2 x @ ''s'' else label @ fmt_f 0 (flt_mul x 1000) @ ''ms'')"

definition get_fades :: "xml \<Rightarrow> string list" where
  "get_fades clip =
     (case py_float (get_attr clip [Child ''Fades'', Child ''FadeInLength''] ''0'') of
        None \<Rightarrow> []
      | Some fi \<Rightarrow> if flt_gt fi (lit (1 / 1000)) then [fade_text ''fade in: '' fi] else [])
     @ (case py_float (get_attr clip [Child ''Fades'', Child ''FadeOutLength''] ''0'') of
          None \<Rightarrow> []
        | Some fo \<Rightarrow> if flt_gt fo (lit (1 / 1000)) then [fade_text ''fade out: '' fo] else [])"

text \<open>
  \<^verbatim>\<open>parse_midi_notes\<close>: the loop over the key tracks collects the pitches that have notes
  and counts the notes; the result is the count and the pitch range.
\<close>

fun midi_loop :: "xml list \<Rightarrow> int list \<times> nat \<Rightarrow> int list \<times> nat" where
  "midi_loop [] acc = acc"
| "midi_loop (kt # kts) (pitches, note_count) =
     midi_loop kts
       (case find_first kt [Child ''MidiKey''] of
          None \<Rightarrow> (pitches, note_count)
        | Some midi_key \<Rightarrow>
           (case py_int (get midi_key ''Value'' ''0'') of
              None \<Rightarrow> (pitches, note_count)
            | Some pitch \<Rightarrow>
               (let notes_in_track = findall kt [Child ''Notes'', Child ''MidiNoteEvent'']
                in if notes_in_track \<noteq> []
                   then (pitches @ [pitch], note_count + length notes_in_track)
                   else (pitches, note_count))))"

definition parse_midi_notes :: "xml \<Rightarrow> (nat \<times> string) option" where
  "parse_midi_notes clip =
     (case midi_loop (findall clip [Desc ''Notes'', Child ''KeyTracks'', Child ''KeyTrack'']) ([], 0) of
        (pitches, note_count) \<Rightarrow>
          if pitches = [] \<or> note_count = 0 then None
          else Some (note_count,
                     midi_note_name (fold min (tl pitches) (hd pitches)) @ ''-''
                     @ midi_note_name (fold max (tl pitches) (hd pitches))))"

definition has_groove :: "xml \<Rightarrow> bool" where
  "has_groove clip =
     (case py_int (get_attr clip [Child ''GrooveSettings'', Child ''GrooveId''] ''-1'') of
        None \<Rightarrow> False
      | Some g \<Rightarrow> 0 \<le> g)"

definition LAUNCH_MODES :: "(int \<times> string) list" where
  "LAUNCH_MODES = [(0, ''trigger''), (1, ''gate''), (2, ''toggle''), (3, ''repeat'')]"

definition LAUNCH_QUANT :: "(int \<times> string) list" where
  "LAUNCH_QUANT = [(0, ''none''), (1, ''8 bars''), (2, ''4 bars''), (3, ''2 bars''), (4, ''1 bar''),
                   (5, ''1/2''), (6, ''1/2T''), (7, ''1/4''), (8, ''1/4T''), (9, ''1/8''),
                   (10, ''1/8T''), (11, ''1/16''), (12, ''1/16T''), (13, ''1/32'')]"

definition FOLLOW_ACTIONS :: "(int \<times> string) list" where
  "FOLLOW_ACTIONS = [(0, ''none''), (1, ''stop''), (2, ''again''), (3, ''prev''), (4, ''next''),
                     (5, ''first''), (6, ''last''), (7, ''any''), (8, ''other'')]"

text \<open>\<^verbatim>\<open>table.get(key, default)\<close> on one of the constant tables.\<close>

definition lookup :: "(int \<times> string) list \<Rightarrow> int \<Rightarrow> string \<Rightarrow> string" where
  "lookup table k dflt = (case map_of table k of None \<Rightarrow> dflt | Some v \<Rightarrow> v)"

text \<open>The settings dictionary of a session clip: an absent key is \<open>None\<close> (or \<open>False\<close>).\<close>

record launch_settings =
  launch_mode :: "string option"
  launch_quant :: "string option"
  follow :: "string option"
  ram :: bool

definition parse_launch_settings :: "xml \<Rightarrow> launch_settings" where
  "parse_launch_settings clip =
     \<lparr>launch_mode =
        (case py_int (get_attr clip [Child ''LaunchMode''] ''0'') of
           None \<Rightarrow> None
         | Some m \<Rightarrow> if m \<noteq> 0 then Some (lookup LAUNCH_MODES m (show_int m)) else None),
      launch_quant =
        (case py_int (get_attr clip [Child ''LaunchQuantisation''] ''0'') of
           None \<Rightarrow> None
         | Some q \<Rightarrow> if 0 < q then Some (lookup LAUNCH_QUANT q (show_int q)) else None),
      follow =
        (if get_attr clip [Child ''FollowAction'', Child ''FollowActionEnabled''] ''false'' = ''true''
         then (case py_int (get_attr clip [Child ''FollowAction'', Child ''FollowActionA''] ''0'') of
                 None \<Rightarrow> None
               | Some a \<Rightarrow>
                  (let action = lookup FOLLOW_ACTIONS a ''unknown''
                   in if action \<noteq> ''none''
                      then (case py_float (get_attr clip [Child ''FollowAction'', Child ''FollowTime''] ''4'') of
                              None \<Rightarrow> None
                            | Some fa_time \<Rightarrow>
                               (let time_bars = flt_div fa_time 4
                                in Some (action @ '' @ '' @ fmt_f 0 time_bars
                                         @ (if flt_eq time_bars 1 then '' bar'' else '' bars''))))
                      else None))
         else None),
      ram = (get_attr clip [Child ''Ram''] ''false'' = ''true'')\<rparr>"

text \<open>The settings dictionary is attached to the clip only when it has a key.\<close>

definition launch_nonempty :: "launch_settings \<Rightarrow> bool" where
  "launch_nonempty l = (launch_mode l \<noteq> None \<or> launch_quant l \<noteq> None \<or> follow l \<noteq> None \<or> ram l)"

text \<open>
  The clip dictionary built by \<^verbatim>\<open>parse_clip\<close>. Optional keys are options; the lists
  \<open>adjustments\<close> and \<open>fades\<close> are stored only when non-empty, so the empty list stands
  for the absent key.
\<close>

record clip_info =
  clip_name :: string
  clip_start :: string
  clip_end :: string
  looped :: bool
  clip_muted :: bool
  time_float :: pyfloat
  clip_offset :: "string option"
  audio_file :: "string option"
  adjustments :: "string list"
  fades :: "string list"
  warp :: "warp_info option"
  midi_notes :: "(nat \<times> string) option"
  groove :: bool
  launch :: "launch_settings option"

text \<open>
  \<^verbatim>\<open>parse_clip\<close> (the helper inside \<^verbatim>\<open>parse_track\<close>). Two conversions are outside any
  \<^verbatim>\<open>try\<close>: \<^verbatim>\<open>float(clip.get("Time", "0"))\<close> and, through \<^verbatim>\<open>get_warp_info\<close>,
  \<^verbatim>\<open>int(warp_mode)\<close>. The offset is \<^verbatim>\<open>format_beats(str(ls + sr))\<close>; printing a float
  and reading it back gives the same float, so the model formats the sum directly, and
  \<^verbatim>\<open>format_beats\<close> returns the printed text when the sum is not finite.
\<close>

definition clip_offset_of :: "xml \<Rightarrow> string option" where
  "clip_offset_of clip =
     (case py_float (get_attr clip [Child ''Loop'', Child ''LoopStart''] ''0'') of
        None \<Rightarrow> None
      | Some ls \<Rightarrow>
         (case py_float (get_attr clip [Child ''Loop'', Child ''StartRelative''] ''0'') of
            None \<Rightarrow> None
          | Some sr \<Rightarrow>
             if \<not> flt_eq sr 0 \<or> \<not> flt_eq ls 0
             then Some (case format_beats_val (flt_add ls sr) of
                          None \<Rightarrow> str_nonfinite (flt_add ls sr)
                        | Some r \<Rightarrow> r)
             else None))"

definition parse_clip :: "(real \<Rightarrow> real) \<Rightarrow> xml \<Rightarrow> exn + clip_info" where
  "parse_clip lg clip =
     (let is_audio = (tag clip = ''AudioClip'')
      in case py_float (get clip ''Time'' ''0'') of
           None \<Rightarrow> Inl (ValueError (get clip ''Time'' ''0''))
         | Some tf \<Rightarrow>
            (let info =
                   \<lparr>clip_name = get_attr clip [Child ''Name''] ''unnamed'',
                    clip_start = format_beats (get clip ''Time'' ''0''),
                    clip_end = format_beats (get_attr clip [Child ''CurrentEnd''] ''?''),
                    looped = (get_attr clip [Child ''Loop'', Child ''LoopOn''] ''false'' = ''true''),
                    clip_muted = (get_attr clip [Child ''Disabled''] ''false'' = ''true''),
                    time_float = tf,
                    clip_offset = clip_offset_of clip,
                    audio_file = None, adjustments = [], fades = [], warp = None,
                    midi_notes = None, groove = False, launch = None\<rparr>
             in if is_audio
                then (case get_warp_info clip of
                        Inl e \<Rightarrow> Inl e
                      | Inr w \<Rightarrow>
                         Inr (info\<lparr>audio_file :=
                                     (case get_audio_ref clip of
                                        None \<Rightarrow> None
                                      | Some r \<Rightarrow> if r \<noteq> [] then Some r else None),
                                   adjustments := get_clip_adjustments lg clip,
                                   fades := get_fades clip,
                                   warp := w,
                                   groove := has_groove clip\<rparr>))
                else Inr (info\<lparr>midi_notes := parse_midi_notes clip, groove := has_groove clip\<rparr>)))"

section \<open>Rendering a clip\<close>

text \<open>\<^verbatim>\<open>", ".join(parts)\<close> and \<^verbatim>\<open>"\\n".join(lines)\<close>.\<close>

fun join :: "string \<Rightarrow> string list \<Rightarrow> string" where
  "join sep [] = []"
| "join sep [x] = x"
| "join sep (x # y # ys) = x @ sep @ join sep (y # ys)"

definition bracketed :: "string list \<Rightarrow> string" where
  "bracketed parts = (if parts = [] then [] else '' ['' @ join '', '' parts @ '']'')"

text \<open>A value fetched with \<^verbatim>\<open>d.get(key)\<close> counts only when present and non-empty.\<close>

definition truthy :: "string option \<Rightarrow> string list" where
  "truthy v = (case v of None \<Rightarrow> [] | Some s \<Rightarrow> if s = [] then [] else [s])"

definition warp_flag :: "warp_info \<Rightarrow> string" where
  "warp_flag w =
     ''warped: '' @ mode w
     @ (case markers w of None \<Rightarrow> [] | Some n \<Rightarrow> '', '' @ show_nat n @ '' markers'')"

definition launch_flags :: "launch_settings \<Rightarrow> string list" where
  "launch_flags l =
     truthy (launch_mode l) @ truthy (launch_quant l)
     @ map (\<lambda>f. ''follow: '' @ f) (truthy (follow l))
     @ (if ram l then [''RAM''] else [])"

definition format_clip :: "clip_info \<Rightarrow> bool \<Rightarrow> string" where
  "format_clip c is_session =
     (let flags =
            (if looped c then [''loop''] else [])
            @ (if clip_muted c then [''muted''] else [])
            @ map (\<lambda>off. ''from '' @ off) (truthy (clip_offset c))
            @ truthy (audio_file c)
            @ (case midi_notes c of
                 None \<Rightarrow> []
               | Some (n, rng) \<Rightarrow> [show_nat n @ '' notes, '' @ rng])
            @ adjustments c
            @ fades c
            @ (case warp c of None \<Rightarrow> [] | Some w \<Rightarrow> [warp_flag w])
            @ (if groove c then [''groove''] else [])
            @ (if is_session then (case launch c of None \<Rightarrow> [] | Some l \<Rightarrow> launch_flags l) else [])
      in [CHR 0x22] @ clip_name c @ [CHR 0x22] @ '' @ '' @ clip_start c @ '' - '' @ clip_end c
         @ bracketed flags)"

section \<open>Track extractors\<close>

definition COLORS :: "(string \<times> string) list" where
  "COLORS = [(''0'', ''Gray''), (''1'', ''Rose''), (''2'', ''Red''), (''3'', ''Orange''), (''4'', ''Gold''),
             (''5'', ''Yellow''), (''6'', ''Lime''), (''7'', ''Green''), (''8'', ''Teal''), (''9'', ''Cyan''),
             (''10'', ''Sky''), (''11'', ''Blue''), (''12'', ''Indigo''), (''13'', ''Purple''),
             (''14'', ''Violet''), (''15'', ''Pink''), (''16'', ''Hot Pink''), (''17'', ''Flesh''),
             (''18'', ''Tan''), (''19'', ''Peach''), (''20'', ''Khaki''), (''21'', ''Light Green''),
             (''22'', ''Sea Foam''), (''23'', ''Light Blue''), (''24'', ''Lavender''),
             (''25'', ''Light Purple''), (''26'', ''White''), (''69'', ''Default'')]"

definition SKIP_PARAMS :: "string list" where
  "SKIP_PARAMS = [''LomId'', ''LomIdView'', ''OverwriteProtectionNumber'', ''LastSelectedTimeableIndex'',
                  ''LastSelectedClipEnvelopeIndex'', ''ModulationSourceCount'', ''IsFolded'', ''IsExpanded'',
                  ''ShouldShowPresetName'', ''Annotation'', ''UserName'', ''ParametersListWrapper'',
                  ''LastPresetRef'', ''LockedScripts'', ''SendsListWrapper'', ''Pointee'',
                  ''ViewStateSesstionTrackWidth'', ''SourceContext'', ''BranchSelectorRange'',
                  ''IsAutoSelectEnabled'', ''ChainSelector'']"

record mixer =
  volume :: string
  pan :: string
  solo :: bool
  muted :: bool
  sends :: "string list"

text \<open>\<^verbatim>\<open>parse_track_mixer\<close>: \<open>None\<close> is the empty dictionary returned without a mixer.\<close>

definition parse_track_mixer :: "(real \<Rightarrow> real) \<Rightarrow> xml \<Rightarrow> mixer option" where
  "parse_track_mixer lg track =
     (case find_first track [Desc ''DeviceChain'', Child ''Mixer''] of
        None \<Rightarrow> None
      | Some m \<Rightarrow>
         Some \<lparr>volume = format_db lg (get_attr m [Child ''Volume'', Child ''Manual''] ''1''),
               pan = format_pan (get_attr m [Child ''Pan'', Child ''Manual''] ''0''),
               solo = (get_attr m [Child ''SoloSink''] ''false'' = ''true''),
               muted = (get_attr m [Child ''Speaker'', Child ''Manual''] ''true'' = ''false''),
               sends =
                 (case find_first m [Child ''Sends''] of
                    None \<Rightarrow> []
                  | Some se \<Rightarrow>
                     map (\<lambda>holder. format_db lg (get_attr holder [Child ''Send'', Child ''Manual''] ''0.0003162277571''))
                       (findall se [Child ''TrackSendHolder'']))\<rparr>)"

record routing =
  r_input :: "string option"
  r_output :: "string option"
  midi_in :: "string option"
  midi_out :: "string option"

definition route :: "xml \<Rightarrow> string \<Rightarrow> string option" where
  "route track rtype =
     (case find_first track [Desc ''DeviceChain'', Child rtype] of
        None \<Rightarrow> None
      | Some elem \<Rightarrow>
         (let upper = get_attr elem [Child ''UpperDisplayString''] [];
              lower = get_attr elem [Child ''LowerDisplayString''] []
          in if upper \<noteq> []
             then Some (if lower \<noteq> [] then strip (upper @ '' '' @ lower) else upper)
             else None))"

definition parse_track_routing :: "xml \<Rightarrow> routing" where
  "parse_track_routing track =
     \<lparr>r_input = route track ''AudioInputRouting'', r_output = route track ''AudioOutputRouting'',
      midi_in = route track ''MidiInputRouting'', midi_out = route track ''MidiOutputRouting''\<rparr>"

definition no_routing :: routing where
  "no_routing = \<lparr>r_input = None, r_output = None, midi_in = None, midi_out = None\<rparr>"

record state =
  frozen :: bool
  group_id :: "string option"
  delay_ms :: "pyfloat option"
  crossfade :: "string option"
  group_name :: "string option"

definition parse_track_state :: "xml \<Rightarrow> state" where
  "parse_track_state track =
     \<lparr>frozen = (get_attr track [Child ''Freeze''] ''false'' = ''true''),
      group_id = (let g = get_attr track [Child ''TrackGroupId''] ''-1''
                  in if g \<noteq> ''-1'' then Some g else None),
      delay_ms =
        (case find_first track [Child ''TrackDelay''] of
           None \<Rightarrow> None
         | Some delay_elem \<Rightarrow>
            (case py_float (get_attr delay_elem [Child ''Value''] ''0'') of
               None \<Rightarrow> None
             | Some d \<Rightarrow> if flt_gt (flt_abs d) (lit (1 / 100)) then Some d else None)),
      crossfade =
        (case py_int (get_attr track [Desc ''Mixer'', Child ''CrossFadeState''] ''0'') of
           None \<Rightarrow> None
         | Some cf \<Rightarrow> if cf = 1 then Some ''A'' else if cf = 2 then Some ''B'' else None),
      group_name = None\<rparr>"

definition no_state :: state where
  "no_state = \<lparr>frozen = False, group_id = None, delay_ms = None, crossfade = None, group_name = None\<rparr>"

subsection \<open>Devices\<close>

text \<open>\<^verbatim>\<open>os.path.splitext(b)[0]\<close> for a base name: leading dots do not start an extension.\<close>

definition splitext_root :: "string \<Rightarrow> string" where
  "splitext_root b =
     (case dropWhile (\<lambda>c. c \<noteq> CHR ''.'') (rev b) of
        [] \<Rightarrow> b
      | _ # before \<Rightarrow> if list_ex (\<lambda>c. c \<noteq> CHR ''.'') before then rev before else b)"

definition get_preset_name :: "xml \<Rightarrow> string option" where
  "get_preset_name dev =
     (case filter (\<lambda>e. tag e = ''RelativePath'' \<and> endswith (get e ''Value'' []) ''.adv'') (iter dev) of
        [] \<Rightarrow> None
      | e # _ \<Rightarrow> Some (splitext_root (basename (get e ''Value'' []))))"

text \<open>\<^verbatim>\<open>tag.split('.')[1]\<close> for a tag that contains a dot.\<close>

definition split_dot_1 :: "string \<Rightarrow> string" where
  "split_dot_1 t = takeWhile (\<lambda>c. c \<noteq> CHR ''.'') (drop 1 (dropWhile (\<lambda>c. c \<noteq> CHR ''.'') t))"

text \<open>
  \<^verbatim>\<open>re.match(r'^Macro \\d+$', name)\<close>: the text \<^verbatim>\<open>Macro\<close>, a space and one or more
  digits; \<^verbatim>\<open>$\<close> also matches before a final newline.
\<close>

definition is_default_macro :: "string \<Rightarrow> bool" where
  "is_default_macro name =
     (startswith name ''Macro '' \<and>
      (let r = drop 6 name;
           ds = (if r \<noteq> [] \<and> last r = CHR 0x0A then butlast r else r)
       in ds \<noteq> [] \<and> list_all is_digit ds))"

definition macro_name_step :: "xml \<Rightarrow> (int \<times> string) list \<Rightarrow> (int \<times> string) list" where
  "macro_name_step child names =
     (if startswith (tag child) ''MacroDisplayNames.''
      then (case py_int (split_dot_1 (tag child)) of
              None \<Rightarrow> names
            | Some idx \<Rightarrow>
               (let name = get child ''Value'' []
                in if name \<noteq> [] \<and> \<not> is_default_macro name then AList.update idx name names else names))
      else names)"

definition get_macro_display_names :: "xml \<Rightarrow> (int \<times> string) list" where
  "get_macro_display_names dev = fold macro_name_step (children dev) []"

text \<open>\<^verbatim>\<open>manual.get('Value')\<close> of the child's \<^verbatim>\<open>Manual\<close> element, when present and non-empty.\<close>

definition manual_value :: "xml \<Rightarrow> string option" where
  "manual_value child =
     (case find_first child [Child ''Manual''] of
        None \<Rightarrow> None
      | Some manual \<Rightarrow> (case map_of (attrib manual) ''Value'' of
                          None \<Rightarrow> None
                        | Some v \<Rightarrow> if v \<noteq> [] then Some v else None))"

text \<open>One round of the parameter loop; the dictionary keeps insertion order.\<close>

definition param_step :: "(int \<times> string) list \<Rightarrow> xml \<Rightarrow> (string \<times> string) list \<Rightarrow> (string \<times> string) list" where
  "param_step macro_names child params =
     (if tag child \<in> set SKIP_PARAMS \<or> tag child = ''On'' then params
      else if startswith (tag child) ''MacroDisplayNames.'' then params
      else if startswith (tag child) ''MacroControls.''
      then (case manual_value child of
              None \<Rightarrow> params
            | Some v \<Rightarrow>
               (case py_int (split_dot_1 (tag child)) of
                  None \<Rightarrow> params
                | Some idx \<Rightarrow>
                   (case map_of macro_names idx of
                      None \<Rightarrow> params
                    | Some param_name \<Rightarrow> AList.update param_name (format_param v param_name) params)))
      else (case manual_value child of
              None \<Rightarrow> params
            | Some v \<Rightarrow> AList.update (tag child) (format_param v (tag child)) params))"

record device =
  dev_name :: string
  is_on :: bool
  params :: "(string \<times> string) list"

definition parse_device :: "xml \<Rightarrow> device" where
  "parse_device dev =
     (let preset = (case get_preset_name dev of
                      Some p \<Rightarrow> if p \<noteq> [] then p
                                else if get_attr dev [Child ''UserName''] [] \<noteq> []
                                then get_attr dev [Child ''UserName''] [] else tag dev
                    | None \<Rightarrow> if get_attr dev [Child ''UserName''] [] \<noteq> []
                              then get_attr dev [Child ''UserName''] [] else tag dev);
          macro_names = (if endswith (tag dev) ''GroupDevice'' then get_macro_display_names dev else [])
      in \<lparr>dev_name = preset,
          is_on = (get_attr dev [Child ''On'', Child ''Manual''] ''true'' = ''true''),
          params = fold (param_step macro_names) (children dev) []\<rparr>)"

definition parse_devices :: "xml \<Rightarrow> bool \<Rightarrow> device list" where
  "parse_devices track is_master =
     (case find_first track (if is_master then [Desc ''DeviceChain'', Child ''Devices'']
                             else [Desc ''DeviceChain'', Child ''DeviceChain'', Child ''Devices'']) of
        None \<Rightarrow> []
      | Some devices_elem \<Rightarrow>
         map parse_device
           (filter (\<lambda>dev. tag dev \<notin> set [''AudioEffectBranchGroup'', ''MidiEffectBranchGroup'',
                                             ''InstrumentBranchGroup''])
              (children devices_elem)))"

subsection \<open>Tracks\<close>

text \<open>A loop that calls a function which may raise: the first exception ends it.\<close>

fun map_exn :: "('a \<Rightarrow> exn + 'b) \<Rightarrow> 'a list \<Rightarrow> exn + 'b list" where
  "map_exn f [] = Inr []"
| "map_exn f (x # xs) =
     (case f x of
        Inl e \<Rightarrow> Inl e
      | Inr y \<Rightarrow> (case map_exn f xs of Inl e \<Rightarrow> Inl e | Inr ys \<Rightarrow> Inr (y # ys)))"

text \<open>\<^verbatim>\<open>s.replace(old, new)\<close> for a non-empty \<open>old\<close>.\<close>

fun replace :: "string \<Rightarrow> string \<Rightarrow> string \<Rightarrow> string" where
  "replace [] old new = []"
| "replace (c # cs) old new =
     (if old \<noteq> [] \<and> startswith (c # cs) old then new @ replace (drop (length old - 1) cs) old new
      else c # replace cs old new)"

text \<open>A session clip is a parsed clip with its launch settings attached when there are any.\<close>

definition parse_session_clip :: "(real \<Rightarrow> real) \<Rightarrow> xml \<Rightarrow> exn + clip_info" where
  "parse_session_clip lg clip =
     (case parse_clip lg clip of
        Inl e \<Rightarrow> Inl e
      | Inr info \<Rightarrow>
         (let l = parse_launch_settings clip
          in Inr (if launch_nonempty l then info\<lparr>launch := Some l\<rparr> else info)))"

record track_info =
  track_type :: string
  track_name :: string
  color :: string
  devices :: "device list"
  arrangement_clips :: "clip_info list"
  session_clips :: "clip_info list"
  track_mixer :: "mixer option"
  track_routing :: routing
  track_state :: state

definition arrangement_elems :: "xml \<Rightarrow> xml list" where
  "arrangement_elems track =
     findall track [Desc ''ArrangerAutomation'', Child ''Events'', Child ''AudioClip'']
     @ findall track [Desc ''ArrangerAutomation'', Child ''Events'', Child ''MidiClip'']"

definition session_elems :: "xml \<Rightarrow> xml list" where
  "session_elems track =
     findall track [Desc ''ClipSlotList'', Desc ''AudioClip'']
     @ findall track [Desc ''ClipSlotList'', Desc ''MidiClip'']"

text \<open>
  \<^verbatim>\<open>clips.sort(key=lambda c: c["time_float"])\<close>: a stable sort that compares keys with
  \<^verbatim>\<open><\<close> only. For keys without a NaN this is the sorted list; with a NaN among the keys
  Python's result depends on its merge strategy, and the model gives the result of
  inserting the clips one by one.
\<close>

fun insert_clip :: "clip_info \<Rightarrow> clip_info list \<Rightarrow> clip_info list" where
  "insert_clip c [] = [c]"
| "insert_clip c (d # ds) =
     (if flt_less (time_float c) (time_float d) then c # d # ds else d # insert_clip c ds)"

definition sort_clips :: "clip_info list \<Rightarrow> clip_info list" where
  "sort_clips cs = foldl (\<lambda>sorted c. insert_clip c sorted) [] cs"

definition parse_track :: "(real \<Rightarrow> real) \<Rightarrow> xml \<Rightarrow> bool \<Rightarrow> exn + track_info" where
  "parse_track lg track is_master =
     (case map_exn (parse_clip lg) (arrangement_elems track) of
        Inl e \<Rightarrow> Inl e
      | Inr arr \<Rightarrow>
         (case map_exn (parse_session_clip lg) (session_elems track) of
            Inl e \<Rightarrow> Inl e
          | Inr sess \<Rightarrow>
             Inr \<lparr>track_type = replace (tag track) ''Track'' [],
                  track_name = get_attr track [Child ''Name'', Child ''EffectiveName''] ''Untitled'',
                  color = (case map_of COLORS (get_attr track [Child ''Color''] ''69'') of
                             None \<Rightarrow> ''Default'' | Some c \<Rightarrow> c),
                  devices = parse_devices track is_master,
                  arrangement_clips = sort_clips arr,
                  session_clips = sess,
                  track_mixer = parse_track_mixer lg track,
                  track_routing = (if is_master then no_routing else parse_track_routing track),
                  track_state = (if is_master then no_state else parse_track_state track)\<rparr>))"

section \<open>Project extractors\<close>

record scene =
  scene_index :: nat
  scene_name :: string

text \<open>
  \<^verbatim>\<open>parse_scenes\<close>: the loop \<^verbatim>\<open>for i, scene in enumerate(..., 1)\<close>, with the counter as
  an argument.
\<close>

fun scenes_loop :: "nat \<Rightarrow> xml list \<Rightarrow> scene list" where
  "scenes_loop i [] = []"
| "scenes_loop i (sc # rest) =
     (let name = get_attr sc [Child ''Name''] []
      in (if name \<noteq> [] \<and> \<not> startswith name ''Scene ''
          then [\<lparr>scene_index = i, scene_name = name\<rparr>] else [])
         @ scenes_loop (i + 1) rest)"

definition parse_scenes :: "xml \<Rightarrow> scene list" where
  "parse_scenes root_elem =
     (case find_first root_elem [Desc ''Scenes''] of
        None \<Rightarrow> []
      | Some scenes_elem \<Rightarrow> scenes_loop 1 (findall scenes_elem [Child ''Scene'']))"

definition NOTE_NAMES_FLAT :: "string list" where
  "NOTE_NAMES_FLAT = [''C'', ''Db'', ''D'', ''Eb'', ''E'', ''F'', ''Gb'', ''G'', ''Ab'', ''A'', ''Bb'', ''B'']"

record loop_region =
  start_bar :: int
  end_bar :: int
  bars :: int

record project_info =
  key :: "string option"
  loop :: "loop_region option"

definition parse_project_info :: "xml \<Rightarrow> project_info" where
  "parse_project_info root_elem =
     \<lparr>key =
        (case find_first root_elem [Desc ''ScaleInformation''] of
           None \<Rightarrow> None
         | Some scale \<Rightarrow>
            (case py_int (get_attr scale [Child ''RootNote''] ''0'') of
               None \<Rightarrow> None
             | Some root_note \<Rightarrow>
                if 0 \<le> root_note \<and> root_note < 12
                then Some (NOTE_NAMES_FLAT ! nat root_note @ '' '' @ get_attr scale [Child ''Name''] ''Major'')
                else None)),
      loop =
        (case find_first root_elem [Desc ''Transport''] of
           None \<Rightarrow> None
         | Some transport \<Rightarrow>
            if get_attr transport [Child ''LoopOn''] ''false'' = ''true''
            then (case py_float (get_attr transport [Child ''LoopStart''] ''0'') of
                    None \<Rightarrow> None
                  | Some start \<Rightarrow>
                     (case py_float (get_attr transport [Child ''LoopLength''] ''16'') of
                        None \<Rightarrow> None
                      | Some len \<Rightarrow>
                         (case (int_of (floordiv4 start), int_of (floordiv4 (flt_add start len)),
                                int_of (floordiv4 len)) of
                            (Some s, Some e, Some b) \<Rightarrow>
                              Some \<lparr>start_bar = s + 1, end_bar = e + 1, bars = b\<rparr>
                          | _ \<Rightarrow> None)))
            else None)\<rparr>"

definition group_map_step :: "xml \<Rightarrow> (string \<times> string) list \<Rightarrow> (string \<times> string) list" where
  "group_map_step track groups =
     (case map_of (attrib track) ''Id'' of
        None \<Rightarrow> groups
      | Some track_id \<Rightarrow>
         if track_id \<noteq> []
         then AList.update track_id (get_attr track [Child ''Name'', Child ''EffectiveName''] ''Group'') groups
         else groups)"

definition build_group_map :: "xml \<Rightarrow> (string \<times> string) list" where
  "build_group_map root_elem = fold group_map_step (findall root_elem [Desc ''Tracks'', Child ''GroupTrack'']) []"

definition is_tempo_automated :: "xml \<Rightarrow> bool" where
  "is_tempo_automated root_elem =
     (let linked =
            (case find_first root_elem [Desc ''MasterTrack'', Desc ''AutomationEnvelopes'', Desc ''Envelopes'',
                                   Desc ''AutomationEnvelope''] of
               None \<Rightarrow> False
             | Some tempo_automation \<Rightarrow> find_first tempo_automation [Desc ''PointeeId''] \<noteq> None)
      in linked \<or>
         1 < length (findall root_elem [Desc ''MasterTrack'', Desc ''AutomationEnvelopes'', Desc ''Envelopes'',
                                   Desc ''AutomationEnvelope'', Desc ''Events'', Desc ''FloatEvent'']))"

definition parse_master_track :: "(real \<Rightarrow> real) \<Rightarrow> xml \<Rightarrow> exn + track_info option" where
  "parse_master_track lg root_elem =
     (case find_first root_elem [Desc ''MasterTrack''] of
        None \<Rightarrow> Inr None
      | Some master \<Rightarrow> (case parse_track lg master True of Inl e \<Rightarrow> Inl e | Inr m \<Rightarrow> Inr (Some m)))"

text \<open>The dictionary of the four track lists.\<close>

record tracks =
  audio :: "track_info list"
  midi :: "track_info list"
  returns :: "track_info list"
  groups :: "track_info list"

definition no_tracks :: tracks where
  "no_tracks = \<lparr>audio = [], midi = [], returns = [], groups = []\<rparr>"

text \<open>The group name is added when the track has a group id that the map knows.\<close>

definition resolve_group :: "(string \<times> string) list \<Rightarrow> track_info \<Rightarrow> track_info" where
  "resolve_group group_map info =
     (case group_id (track_state info) of
        None \<Rightarrow> info
      | Some g \<Rightarrow>
         if g \<noteq> []
         then (case map_of group_map g of
                 None \<Rightarrow> info
               | Some n \<Rightarrow> info\<lparr>track_state := (track_state info)\<lparr>group_name := Some n\<rparr>\<rparr>)
         else info)"

text \<open>The \<^verbatim>\<open>if\<close>/\<^verbatim>\<open>elif\<close> chain on the tag; it has no \<^verbatim>\<open>else\<close> branch.\<close>

definition assign :: "string \<Rightarrow> track_info \<Rightarrow> tracks \<Rightarrow> tracks" where
  "assign t info trk =
     (if t = ''AudioTrack'' then trk\<lparr>audio := audio trk @ [info]\<rparr>
      else if t = ''MidiTrack'' then trk\<lparr>midi := midi trk @ [info]\<rparr>
      else if t = ''ReturnTrack'' then trk\<lparr>returns := returns trk @ [info]\<rparr>
      else if t = ''GroupTrack'' then trk\<lparr>groups := groups trk @ [info]\<rparr>
      else trk)"

fun tracks_loop :: "(real \<Rightarrow> real) \<Rightarrow> (string \<times> string) list \<Rightarrow> xml list \<Rightarrow> tracks \<Rightarrow> exn + tracks" where
  "tracks_loop lg group_map [] trk = Inr trk"
| "tracks_loop lg group_map (t # ts) trk =
     (case parse_track lg t False of
        Inl e \<Rightarrow> Inl e
      | Inr info \<Rightarrow> tracks_loop lg group_map ts (assign (tag t) (resolve_group group_map info) trk))"

record locator =
  loc_name :: string
  loc_time :: string

definition parse_locators :: "xml \<Rightarrow> locator list" where
  "parse_locators root_elem =
     map (\<lambda>loc. \<lparr>loc_name = get_attr loc [Child ''Name''] [],
                  loc_time = format_beats (get_attr loc [Child ''Time''] ''0'')\<rparr>)
       (filter (\<lambda>loc. get_attr loc [Child ''Name''] [] \<noteq> [])
          (findall root_elem [Desc ''Locators'', Child ''Locators'', Child ''Locator'']))"

record project =
  creator :: string
  tempo :: string
  time_sig :: string
  proj_tracks :: tracks
  locators :: "locator list"
  master :: "track_info option"
  scenes :: "scene list"
  tempo_automated :: bool
  proj_info :: project_info

text \<open>The part of \<^verbatim>\<open>parse_als\<close> that works on the parsed document.\<close>

definition parse_root :: "(real \<Rightarrow> real) \<Rightarrow> xml \<Rightarrow> exn + project" where
  "parse_root lg root_elem =
     (case tracks_loop lg (build_group_map root_elem)
             (case find_first root_elem [Desc ''Tracks''] of None \<Rightarrow> [] | Some tracks_elem \<Rightarrow> children tracks_elem)
             no_tracks of
        Inl e \<Rightarrow> Inl e
      | Inr trk \<Rightarrow>
         (case parse_master_track lg root_elem of
            Inl e \<Rightarrow> Inl e
          | Inr m \<Rightarrow>
             Inr \<lparr>creator = get root_elem ''Creator'' ''Unknown'',
                  tempo = get_attr root_elem [Desc ''Tempo'', Child ''Manual''] ''120'',
                  time_sig = get_attr root_elem [Desc ''TimeSignature'', Child ''Manual'', Child ''Numerator''] ''4''
                             @ ''/''
                             @ get_attr root_elem [Desc ''TimeSignature'', Child ''Manual'', Child ''Denominator''] ''4'',
                  proj_tracks = trk,
                  locators = parse_locators root_elem,
                  master = m,
                  scenes = parse_scenes root_elem,
                  tempo_automated = is_tempo_automated root_elem,
                  proj_info = parse_project_info root_elem\<rparr>))"

text \<open>
  What \<^verbatim>\<open>parse_als\<close> returns: the dictionary with the single key \<^verbatim>\<open>error\<close>, or the
  project dictionary.
\<close>

datatype result = Error string | Project project

text \<open>
  \<^verbatim>\<open>parse_als\<close>. Reading the file, \<^verbatim>\<open>gzip.decompress\<close> and \<^verbatim>\<open>decode('utf-8')\<close> are
  library calls inside the \<^verbatim>\<open>try\<close>: \<open>inflate\<close> stands for them and gives the decoded text
  or the message of the exception. \<^verbatim>\<open>ET.fromstring\<close> is a library call after the
  \<^verbatim>\<open>try\<close>: \<open>fromstring\<close> gives the tree or the message of its \<^verbatim>\<open>ParseError\<close>. The
  parameter \<open>lg\<close> is the C library's \<^verbatim>\<open>log10\<close>, which the decibel formatter calls.
\<close>

definition parse_als ::
  "(real \<Rightarrow> real) \<Rightarrow> (string \<Rightarrow> string + string) \<Rightarrow> (string \<Rightarrow> string + xml) \<Rightarrow> string \<Rightarrow> exn + result" where
  "parse_als lg inflate fromstring file_bytes =
     (case inflate file_bytes of
        Inl msg \<Rightarrow> Inr (Error msg)
      | Inr xml_data \<Rightarrow>
         (case fromstring xml_data of
            Inl msg \<Rightarrow> Inl (ParseError msg)
          | Inr root_elem \<Rightarrow> (case parse_root lg root_elem of Inl e \<Rightarrow> Inl e | Inr p \<Rightarrow> Inr (Project p))))"

section \<open>The renderer\<close>

definition MAX_INLINE_PARAMS :: nat where
  "MAX_INLINE_PARAMS = 4"

definition format_device_params :: "(string \<times> string) list \<Rightarrow> string \<Rightarrow> string" where
  "format_device_params ps indent =
     (if ps = [] then []
      else if length ps \<le> MAX_INLINE_PARAMS
      then '' ('' @ join '', '' (map (\<lambda>(k, v). k @ ''='' @ v) ps) @ '')''
      else join [CHR 0x0A] ('':'' # map (\<lambda>(k, v). indent @ ''    '' @ k @ '': '' @ v) ps))"

text \<open>
  The send labels are \<^verbatim>\<open>chr(65 + i)\<close>: A, B, C and so on (one byte each for the first
  63 sends).
\<close>

definition send_parts :: "string list \<Rightarrow> string list" where
  "send_parts ss =
     concat (map (\<lambda>(i, send). if send \<noteq> ''-inf'' then [''Send '' @ [char_of (65 + i)] @ '': '' @ send] else [])
               (zip [0 ..< length ss] ss))"

definition format_mixer_info :: "mixer option \<Rightarrow> string" where
  "format_mixer_info mx =
     (case mx of
        None \<Rightarrow> []
      | Some m \<Rightarrow>
         bracketed ((if solo m then [''SOLO''] else []) @ (if muted m then [''MUTED''] else [])
                    @ [''Vol: '' @ volume m, ''Pan: '' @ pan m] @ send_parts (sends m)))"

definition device_lines :: "string \<Rightarrow> string \<Rightarrow> device list \<Rightarrow> string list" where
  "device_lines bullet indent ds =
     map (\<lambda>d. bullet @ (if is_on d then [] else ''[OFF] '') @ dev_name d
               @ format_device_params (params d) indent) ds"

text \<open>The arrow in the routing text is U+2192, three bytes in UTF-8.\<close>

definition routing_str :: "routing \<Rightarrow> string" where
  "routing_str r =
     (case truthy (r_input r) of
        [] \<Rightarrow> []
      | input_r # _ \<Rightarrow> if startswith input_r ''Ext. In'' then [] else '' In: '' @ input_r)
     @ (case truthy (r_output r) of
          [] \<Rightarrow> []
        | output_r # _ \<Rightarrow> if output_r = ''Master'' then []
                           else [CHR 0x20, CHR 0xE2, CHR 0x86, CHR 0x92, CHR 0x20] @ output_r)"

definition track_header :: "nat \<Rightarrow> track_info \<Rightarrow> string" where
  "track_header i t =
     (let st = track_state t;
          state_flags = (if frozen st then [''FROZEN''] else []);
          extra = map (\<lambda>x. ''XF: '' @ x) (truthy (crossfade st))
                  @ (case delay_ms st of
                       None \<Rightarrow> []
                     | Some d \<Rightarrow> if \<not> flt_eq d 0 then [''delay: '' @ fmt_f 0 d @ ''ms''] else []);
          group_str = (case truthy (group_name st) of
                         [] \<Rightarrow> []
                       | g # _ \<Rightarrow> '' (in '' @ [CHR 0x22] @ g @ [CHR 0x22] @ '')'')
      in ''  ['' @ show_nat i @ ''] '' @ track_name t @ '' ('' @ color t @ '')''
         @ bracketed state_flags @ format_mixer_info (track_mixer t) @ bracketed extra
         @ routing_str (track_routing t) @ group_str)"

text \<open>
  The lines for the session clips of a track: a count, the first three clips, and a
  remainder line when there are more.
\<close>

definition session_lines :: "clip_info list \<Rightarrow> string list" where
  "session_lines sess_clips =
     (if sess_clips = [] then []
      else (''      Session Slots ('' @ show_nat (length sess_clips) @ ''):'')
           # map (\<lambda>c. ''        - '' @ format_clip c True) (take 3 sess_clips)
           @ (if 3 < length sess_clips
              then [''        ... and '' @ show_nat (length sess_clips - 3) @ '' more in slots'']
              else []))"

definition arrangement_lines :: "clip_info list \<Rightarrow> string list" where
  "arrangement_lines arr_clips =
     (if arr_clips = [] then []
      else (''      Arrangement ('' @ show_nat (length arr_clips) @ ''):'')
           # map (\<lambda>c. ''        - '' @ format_clip c False) arr_clips)"

definition track_lines :: "nat \<Rightarrow> track_info \<Rightarrow> string list" where
  "track_lines i t =
     track_header i t
     # (if devices t = [] then []
        else ''      Devices:'' # device_lines ''        - '' ''          '' (devices t))
     @ arrangement_lines (arrangement_clips t)
     @ session_lines (session_clips t)"

definition section_lines :: "string \<Rightarrow> track_info list \<Rightarrow> string list" where
  "section_lines label ts =
     (if ts = [] then []
      else [replicate 40 (CHR ''-''), label @ '' TRACKS ('' @ show_nat (length ts) @ ''):'']
           @ concat (map (\<lambda>(i, t). track_lines (i + 1) t) (zip [0 ..< length ts] ts))
           @ [[]])"

definition master_lines :: "track_info option \<Rightarrow> string list" where
  "master_lines mo =
     (case mo of
        None \<Rightarrow> []
      | Some m \<Rightarrow>
         [replicate 40 (CHR ''-''), ''MASTER:'']
         @ (case track_mixer m of None \<Rightarrow> [] | Some mx \<Rightarrow> [''  Volume: '' @ volume mx])
         @ (if devices m = [] then [] else ''  Devices:'' # device_lines ''    - '' ''      '' (devices m))
         @ [[]])"

definition header_lines :: "project \<Rightarrow> string list" where
  "header_lines p =
     [replicate 60 (CHR ''=''), ''ABLETON PROJECT SUMMARY'', replicate 60 (CHR ''=''),
      ''Creator: '' @ creator p]
     @ map (\<lambda>k. ''Key: '' @ k) (truthy (key (proj_info p)))
     @ [''Tempo: '' @ tempo p @ '' BPM'' @ (if tempo_automated p then '' [automated]'' else []),
        ''Time Signature: '' @ time_sig p]
     @ (case loop (proj_info p) of
          None \<Rightarrow> []
        | Some l \<Rightarrow> [''Loop: bars '' @ show_int (start_bar l) @ ''-'' @ show_int (end_bar l)
                       @ '' ('' @ show_int (bars l) @ '' '' @ (if bars l = 1 then ''bar'' else ''bars'') @ '')''])
     @ [[]]"

definition marker_lines :: "locator list \<Rightarrow> string list" where
  "marker_lines ls =
     (if ls = [] then []
      else [replicate 40 (CHR ''-''), ''MARKERS:'']
           @ map (\<lambda>l. ''  ['' @ loc_time l @ ''] '' @ loc_name l) ls @ [[]])"

definition scene_lines :: "scene list \<Rightarrow> string list" where
  "scene_lines ss =
     (if ss = [] then []
      else [replicate 40 (CHR ''-''), ''SCENES:'']
           @ map (\<lambda>s. ''  ['' @ show_nat (scene_index s) @ ''] '' @ scene_name s) ss @ [[]])"

definition project_lines :: "project \<Rightarrow> string list" where
  "project_lines p =
     header_lines p @ marker_lines (locators p)
     @ section_lines ''AUDIO'' (audio (proj_tracks p)) @ section_lines ''MIDI'' (midi (proj_tracks p))
     @ section_lines ''RETURN'' (returns (proj_tracks p)) @ section_lines ''GROUP'' (groups (proj_tracks p))
     @ master_lines (master p) @ scene_lines (scenes p)
     @ [replicate 60 (CHR ''='')]"

definition format_output :: "result \<Rightarrow> string" where
  "format_output r =
     (case r of
        Error msg \<Rightarrow> ''ERROR: '' @ msg
      | Project p \<Rightarrow> join [CHR 0x0A] (project_lines p))"

text \<open>
  The script's entry point prints \<^verbatim>\<open>format_output(parse_als(path))\<close>: an exception that
  leaves \<^verbatim>\<open>parse_als\<close> leaves the program, and nothing is rendered.
\<close>

definition textconv ::
  "(real \<Rightarrow> real) \<Rightarrow> (string \<Rightarrow> string + string) \<Rightarrow> (string \<Rightarrow> string + xml) \<Rightarrow> string \<Rightarrow> exn + string" where
  "textconv lg inflate fromstring file_bytes =
     (case parse_als lg inflate fromstring file_bytes of
        Inl e \<Rightarrow> Inl e
      | Inr r \<Rightarrow> Inr (format_output r))"

section \<open>The parameter rules as an ordered table\<close>

text \<open>
  The specification describes \<^verbatim>\<open>format_param\<close> as a fixed list of rules, each a test on
  the value and the lower-cased name with a unit transform, tried from the top; the first
  rule whose test holds gives the result, and the last rule always applies. This table
  follows the specification's wording for a finite value; \<open>format_param_val\<close> above
  follows the code. The arithmetic is that of binary64 floats.
\<close>

definition any_of :: "string list \<Rightarrow> string \<Rightarrow> bool" where
  "any_of subs name = list_ex (\<lambda>sub. contains name sub) subs"

type_synonym param_rule = "(pyfloat \<Rightarrow> string \<Rightarrow> bool) \<times> (pyfloat \<Rightarrow> string)"

definition rule_on_off :: param_rule where
  "rule_on_off =
     (\<lambda>v name. (flt_eq v 0 \<or> flt_eq v 1) \<and> \<not> any_of [''time'', ''rate''] name
                 \<and> any_of [''on'', ''sync'', ''link'', ''freeze''] name,
      \<lambda>v. if flt_eq v 1 then ''on'' else ''off'')"

definition rule_percent :: param_rule where
  "rule_percent =
     (\<lambda>v name. flt_ge v 0 \<and> flt_le v 1
                 \<and> any_of [''wet'', ''mix'', ''amount'', ''feedback'', ''depth'', ''gain'', ''drive'',
                            ''resonance''] name,
      \<lambda>v. fmt_f 0 (flt_mul v 100) @ ''%'')"

definition rule_frequency :: param_rule where
  "rule_frequency =
     (\<lambda>v name. any_of [''freq''] name \<and> \<not> any_of [''mod''] name,
      \<lambda>v. if flt_lt v 1000 then fmt_f 0 v @ ''Hz'' else fmt_f 1 (flt_div v 1000) @ ''kHz'')"

definition rule_short_time :: param_rule where
  "rule_short_time =
     (\<lambda>v name. any_of [''timesec'', ''attack'', ''release'', ''predelay''] name \<and> flt_lt v 10,
      \<lambda>v. if flt_lt v 1 then fmt_f 0 (flt_mul v 1000) @ ''ms'' else fmt_f 2 v @ ''s'')"

text \<open>A finite float is a whole number when its magnitude is one.\<close>

fun is_whole :: "pyfloat \<Rightarrow> bool" where
  "is_whole (Num neg m) = (m \<in> \<int>)"
| "is_whole x = False"

fun whole_part :: "pyfloat \<Rightarrow> int" where
  "whole_part (Num neg m) = (if neg then - \<lfloor>m\<rfloor> else \<lfloor>m\<rfloor>)"
| "whole_part x = 0"

definition rule_fallback :: param_rule where
  "rule_fallback = (\<lambda>v name. True, \<lambda>v. if is_whole v then show_int (whole_part v) else fmt_f 2 v)"

definition param_rules :: "param_rule list" where
  "param_rules = [rule_on_off, rule_percent, rule_frequency, rule_short_time, rule_fallback]"

fun first_rule :: "param_rule list \<Rightarrow> pyfloat \<Rightarrow> string \<Rightarrow> string option" where
  "first_rule [] v name = None"
| "first_rule (r # rs) v name = (if fst r v name then Some (snd r v) else first_rule rs v name)"

definition format_param_spec :: "pyfloat \<Rightarrow> string \<Rightarrow> string option" where
  "format_param_spec v name = first_rule param_rules v (lower name)"

section \<open>The track lists as the specification describes them\<close>

text \<open>
  The entries a track list should hold: the parsed children with the list's tag, in
  document order, each with its group name resolved.
\<close>

definition tracks_of_kind :: "string \<Rightarrow> (string \<times> string) list \<Rightarrow> xml list \<Rightarrow> track_info list \<Rightarrow> track_info list" where
  "tracks_of_kind kind group_map ts infos =
     map (\<lambda>(t, info). resolve_group group_map info) (filter (\<lambda>(t, info). tag t = kind) (zip ts infos))"

section \<open>Example documents\<close>

text \<open>Small documents on which the functions above are evaluated.\<close>

definition scenes_doc :: xml where
  "scenes_doc =
     Elem ''Ableton'' []
       [Elem ''LiveSet'' []
          [Elem ''Scenes'' []
             [Elem ''Scene'' [] [Elem ''Name'' [(''Value'', ''Scene 1'')] []],
              Elem ''Scene'' [] [Elem ''Name'' [(''Value'', ''Drop'')] []],
              Elem ''Scene'' [] [Elem ''Name'' [(''Value'', [])] []],
              Elem ''Scene'' [] [Elem ''Name'' [(''Value'', ''Outro'')] []]]]]"

definition warp_markers :: "nat \<Rightarrow> xml" where
  "warp_markers n = Elem ''WarpMarkers'' [] (replicate n (Elem ''WarpMarker'' [] []))"

definition unwarped_clip :: xml where
  "unwarped_clip =
     Elem ''AudioClip'' [(''Time'', ''0'')]
       [Elem ''IsWarped'' [(''Value'', ''false'')] [],
        Elem ''WarpMode'' [(''Value'', ''abc'')] [],
        warp_markers 3]"

definition audio_clip :: "string \<Rightarrow> string \<Rightarrow> nat \<Rightarrow> xml" where
  "audio_clip nm warp_mode n =
     Elem ''AudioClip'' [(''Time'', ''0'')]
       [Elem ''Name'' [(''Value'', nm)] [],
        Elem ''CurrentEnd'' [(''Value'', ''4'')] [],
        Elem ''IsWarped'' [(''Value'', ''true'')] [],
        Elem ''WarpMode'' [(''Value'', warp_mode)] [],
        warp_markers n]"

definition midi_slot_clip :: "string \<Rightarrow> xml" where
  "midi_slot_clip nm =
     Elem ''MidiClip'' [(''Time'', ''0'')]
       [Elem ''Name'' [(''Value'', nm)] [], Elem ''CurrentEnd'' [(''Value'', ''4'')] []]"

definition clip_slot :: "xml \<Rightarrow> xml" where
  "clip_slot clip = Elem ''ClipSlot'' [] [Elem ''ClipSlot'' [] [Elem ''Value'' [] [clip]]]"

definition track_with_slots :: "string \<Rightarrow> string \<Rightarrow> xml list \<Rightarrow> xml" where
  "track_with_slots kind nm clips =
     Elem kind []
       [Elem ''Name'' [] [Elem ''EffectiveName'' [(''Value'', nm)] []],
        Elem ''DeviceChain'' []
          [Elem ''MainSequencer'' [] [Elem ''ClipSlotList'' [] (map clip_slot clips)]]]"

definition five_slot_track :: xml where
  "five_slot_track =
     track_with_slots ''MidiTrack'' ''Keys''
       [midi_slot_clip ''a'', midi_slot_clip ''b'', midi_slot_clip ''c'', midi_slot_clip ''d'',
        midi_slot_clip ''e'']"

definition slot_info :: "string \<Rightarrow> clip_info" where
  "slot_info nm =
     \<lparr>clip_name = nm, clip_start = ''1.1.0'', clip_end = ''2.1.0'', looped = False, clip_muted = False,
      time_float = Num False 0, clip_offset = None, audio_file = None, adjustments = [], fades = [], warp = None,
      midi_notes = None, groove = False, launch = None\<rparr>"

definition plain_info :: "string \<Rightarrow> string \<Rightarrow> clip_info list \<Rightarrow> track_info" where
  "plain_info kind nm sess =
     \<lparr>track_type = kind, track_name = nm, color = ''Default'', devices = [],
      arrangement_clips = [], session_clips = sess, track_mixer = None,
      track_routing = no_routing, track_state = no_state\<rparr>"

text \<open>A document whose only track is the track with five session clips, and its project.\<close>

definition slots_doc :: xml where
  "slots_doc =
     Elem ''Ableton'' [(''Creator'', ''Ableton Live 11.0'')]
       [Elem ''LiveSet'' [] [Elem ''Tracks'' [] [five_slot_track]]]"

definition slots_project :: project where
  "slots_project =
     \<lparr>creator = ''Ableton Live 11.0'', tempo = ''120'', time_sig = ''4/4'',
      proj_tracks =
        \<lparr>audio = [],
         midi = [plain_info ''Midi'' ''Keys''
                   [slot_info ''a'', slot_info ''b'', slot_info ''c'', slot_info ''d'', slot_info ''e'']],
         returns = [], groups = []\<rparr>,
      locators = [], master = None, scenes = [], tempo_automated = False,
      proj_info = \<lparr>key = None, loop = None\<rparr>\<rparr>"

definition four_tracks :: "xml list" where
  "four_tracks =
     [track_with_slots ''AudioTrack'' ''Drums'' [], track_with_slots ''OtherTrack'' ''Stray'' [],
      track_with_slots ''MidiTrack'' ''Keys'' [], track_with_slots ''AudioTrack'' ''Bass'' []]"

definition stray_doc :: xml where
  "stray_doc =
     Elem ''Ableton'' [] [Elem ''LiveSet'' [] [Elem ''Tracks'' [] [track_with_slots ''OtherTrack'' ''Stray'' []]]]"

definition warp_doc :: xml where
  "warp_doc =
     Elem ''Ableton'' [(''Creator'', ''Ableton Live 11.0'')]
       [Elem ''LiveSet'' []
          [Elem ''Tracks'' [] [track_with_slots ''AudioTrack'' ''Drums'' [audio_clip ''kick'' ''abc'' 3]]]]"

text \<open>
  The values a C library's \<^verbatim>\<open>log10\<close> returns at three floats: at 1, at 0.5 and at
  1.9952623149688797, where the result is the float 0.3 and the decibel value the
  integer 6. Elsewhere the table holds 0.
\<close>

definition sample_log10 :: "real \<Rightarrow> real" where
  "sample_log10 x =
     (if x = 1 / 2 then - (5422874305198591 / 2 ^ 54)
      else if x = 561616413637515 / 2 ^ 48 then 5404319552844595 / 2 ^ 54
      else 0)"

text \<open>
  Two files as the library calls see them: one that is not gzip data, and one that
  inflates to the text \<^verbatim>\<open><Ableton>\<close>, which the XML parser rejects.
\<close>

definition sample_inflate :: "string \<Rightarrow> string + string" where
  "sample_inflate file_bytes =
     (if file_bytes = ''plain text'' then Inl ''Not a gzipped file (b'pl')'' else Inr ''<Ableton>'')"

definition sample_fromstring :: "string \<Rightarrow> string + xml" where
  "sample_fromstring xml_data =
     (if xml_data = ''<Ableton>'' then Inl ''no element found: line 1, column 9''
      else Inr (Elem ''Ableton'' [] []))"

section \<open>Properties of the formatters\<close>

text \<open>The definitions that a concrete number or text is evaluated with.\<close>

lemmas flt_defs = py_float_def decimal_def py_int_def strip_def is_ws_def split_at_def mantissa_def exponent_def
  scale10_def digitpart_def is_digit_def digit_val_def show_int_def show_nat.simps digit_char_def
  lower_def lower_char_def num_val_def pow2_def expo_def scale_down.simps scale_up.simps round_mag_def
  to_float_def lit_def round_half_even_def pad_left_def fixed_def fmt_plus_d_def fmod4_def flt_gt_def flt_ge_def

subsection \<open>Rounding\<close>

lemma round_half_even_near: "\<bar>of_int (round_half_even z) - z\<bar> \<le> 1 / 2"
proof -
  have "of_int \<lfloor>z\<rfloor> \<le> z" and "z < of_int \<lfloor>z\<rfloor> + 1"
    by linarith+
  then show ?thesis
    by (auto simp: round_half_even_def Let_def)
qed

lemma round_half_even_eq: "of_int k - 1 / 2 < z \<Longrightarrow> z < of_int k + 1 / 2 \<Longrightarrow> round_half_even z = k"
  using round_half_even_near [of z] by linarith

lemma pow2_pos: "0 < pow2 e"
  by (simp add: pow2_def)

lemma round_mag_near:
  "m \<noteq> 0 \<Longrightarrow> \<bar>round_mag m - m\<bar> \<le> pow2 (max (expo m) (- 1022) - 52) / 2"
proof -
  assume nz: "m \<noteq> 0"
  define u where "u = pow2 (max (expo m) (- 1022) - 52)"
  have u: "0 < u"
    by (simp add: u_def pow2_pos)
  have "\<bar>of_int (round_half_even (m / u)) - m / u\<bar> \<le> 1 / 2"
    by (rule round_half_even_near)
  then have "\<bar>of_int (round_half_even (m / u)) - m / u\<bar> * u \<le> (1 / 2) * u"
    using u by (intro mult_right_mono) simp_all
  moreover have "\<bar>of_int (round_half_even (m / u)) - m / u\<bar> * u = \<bar>of_int (round_half_even (m / u)) * u - m\<bar>"
  proof -
    have "\<bar>of_int (round_half_even (m / u)) - m / u\<bar> * u
        = \<bar>(of_int (round_half_even (m / u)) - m / u) * u\<bar>"
      using u by (simp add: abs_mult)
    also have "(of_int (round_half_even (m / u)) - m / u) * u = of_int (round_half_even (m / u)) * u - m"
      using u by (simp add: left_diff_distrib)
    finally show ?thesis .
  qed
  ultimately show ?thesis
    using nz by (simp add: round_mag_def Let_def u_def [symmetric])
qed

lemma scale_down_le: "m < 2 ^ Suc k \<Longrightarrow> scale_down fuel m e \<le> e + int k"
proof (induction fuel arbitrary: m e k)
  case 0
  then show ?case by (simp add: scale_down.simps)
next
  case (Suc fuel)
  show ?case
  proof (cases "m < 2")
    case True
    then show ?thesis by (simp add: scale_down.simps)
  next
    case False
    with Suc.prems obtain j where k: "k = Suc j"
      by (cases k) auto
    from Suc.prems k have "m / 2 < 2 ^ Suc j" by simp
    from Suc.IH [OF this, of "e + 1"] False k show ?thesis
      by (simp add: scale_down.simps)
  qed
qed

lemma scale_up_le: "scale_up fuel m e \<le> e"
proof (induction fuel arbitrary: m e)
  case 0
  then show ?case by (simp add: scale_up.simps)
next
  case (Suc fuel)
  from Suc.IH [of "m * 2" "e - 1"] show ?case
    by (simp add: scale_up.simps)
qed

lemma expo_le: "m < 2 ^ Suc k \<Longrightarrow> expo m \<le> int k"
  using scale_down_le [of m k 1100 0] scale_up_le [of 1100 m 0] by (simp add: expo_def)

text \<open>A magnitude up to \<open>2\<^sup>1\<^sup>0\<^sup>0\<^sup>0\<close> does not overflow when rounded.\<close>

lemma no_overflow:
  assumes "0 \<le> m" and "m < 2 ^ 1000"
  shows "round_mag m < 2 ^ 1024" and "0 \<le> round_mag m"
proof -
  have nonneg: "0 \<le> round_mag m"
  proof (cases "m = 0")
    case True
    then show ?thesis by (simp add: round_mag_def)
  next
    case False
    define u where "u = pow2 (max (expo m) (- 1022) - 52)"
    have "0 < u" by (simp add: u_def pow2_pos)
    moreover from assms this have "0 \<le> m / u" by simp
    then have "0 \<le> round_half_even (m / u)"
      using round_half_even_near [of "m / u"] by linarith
    ultimately show ?thesis
      using False by (simp add: round_mag_def Let_def u_def [symmetric])
  qed
  show "0 \<le> round_mag m" by (rule nonneg)
  show "round_mag m < 2 ^ 1024"
  proof (cases "m = 0")
    case True
    then show ?thesis by (simp add: round_mag_def)
  next
    case False
    have "m < 2 ^ Suc 999" using assms by simp
    then have "expo m \<le> 999" using expo_le [of m 999] by simp
    then have e: "max (expo m) (- 1022) - 52 \<le> 947" by simp
    have "pow2 (max (expo m) (- 1022) - 52) \<le> 2 ^ 947"
    proof (cases "0 \<le> max (expo m) (- 1022) - 52")
      case True
      with e have "nat (max (expo m) (- 1022) - 52) \<le> 947" by simp
      then have "(2::real) ^ nat (max (expo m) (- 1022) - 52) \<le> 2 ^ 947"
        by (intro power_increasing) simp_all
      with True show ?thesis by (simp add: pow2_def)
    next
      case False
      have "1 / (2::real) ^ nat (- (max (expo m) (- 1022) - 52)) \<le> 1"
        by simp
      also have "(1::real) \<le> 2 ^ 947" by simp
      finally show ?thesis using False by (simp add: pow2_def)
    qed
    with round_mag_near [OF \<open>m \<noteq> 0\<close>] have "round_mag m \<le> m + 2 ^ 947 / 2"
      by linarith
    also have "\<dots> < 2 ^ 1000 + 2 ^ 947 / 2" using assms by simp
    also have "\<dots> < (2::real) ^ 1024" by simp
    finally show ?thesis .
  qed
qed

lemma to_float_small: "0 \<le> m \<Longrightarrow> m < 2 ^ 1000 \<Longrightarrow> to_float neg m = Num neg (round_mag m)"
  using no_overflow [of m] by (simp add: to_float_def Let_def)

lemma pow2_succ: "pow2 (e + 1) = 2 * pow2 e"
proof -
  have p: "pow2 k = 2 powi k" for k
    by (simp add: pow2_def power_int_def inverse_eq_divide power_one_over)
  show ?thesis
    unfolding p by (simp add: power_int_add)
qed

lemma scale_down_pow: "1 \<le> m \<Longrightarrow> pow2 (scale_down fuel m e) \<le> m * pow2 e"
proof (induction fuel arbitrary: m e)
  case 0
  then show ?case
    using pow2_pos [of e] by (simp add: scale_down.simps)
next
  case (Suc fuel)
  show ?case
  proof (cases "m < 2")
    case True
    with Suc.prems show ?thesis
      using pow2_pos [of e] by (simp add: scale_down.simps)
  next
    case False
    then have "1 \<le> m / 2" by simp
    from Suc.IH [OF this, of "e + 1"] False show ?thesis
      by (simp add: scale_down.simps pow2_succ)
  qed
qed

lemma expo_pow: "1 \<le> m \<Longrightarrow> pow2 (expo m) \<le> m"
  using scale_down_pow [of m 1100 0] by (simp add: expo_def pow2_def)

text \<open>A magnitude of \<open>2\<^sup>1\<^sup>0\<^sup>2\<^sup>5\<close> or more overflows.\<close>

lemma to_float_overflow:
  assumes "2 ^ 1025 \<le> m"
  shows "to_float neg m = Infty neg"
proof -
  have one: "1 \<le> m"
  proof -
    have "(1::real) \<le> 2 ^ 1025" by simp
    with assms show ?thesis by linarith
  qed
  then have nz: "m \<noteq> 0" by simp
  define e where "e = expo m"
  have e: "pow2 e \<le> m"
    unfolding e_def using one by (rule expo_pow)
  have "0 \<le> e"
  proof -
    have "(0::int) \<le> scale_down 1100 m 0"
    proof -
      have "scale_down fuel x a \<ge> a" for fuel x a
      proof (induction fuel arbitrary: x a)
        case 0
        show ?case by (simp add: scale_down.simps)
      next
        case (Suc fuel)
        from Suc.IH [of "a + 1" "x / 2"] show ?case
          by (simp add: scale_down.simps)
      qed
      then show ?thesis .
    qed
    with one show ?thesis
      by (simp add: e_def expo_def)
  qed
  then have mx: "max e (- 1022) - 52 = e - 52"
    by simp
  have "pow2 e = pow2 (e - 52) * 2 ^ 52"
  proof -
    have p: "pow2 k = 2 powi k" for k
      by (simp add: pow2_def power_int_def inverse_eq_divide power_one_over)
    have "(2::real) powi ((e - 52) + 52) = 2 powi (e - 52) * 2 powi 52"
      by (rule power_int_add) simp
    then show ?thesis
      unfolding p by simp
  qed
  with e have u: "pow2 (e - 52) * 2 ^ 52 \<le> m"
    by simp
  have "\<bar>round_mag m - m\<bar> \<le> pow2 (e - 52) / 2"
    using round_mag_near [OF nz] by (simp add: e_def [symmetric] mx)
  then have "m - pow2 (e - 52) / 2 \<le> round_mag m"
    by linarith
  moreover have "pow2 (e - 52) / 2 \<le> m / 2 ^ 53"
  proof -
    from u have "pow2 (e - 52) \<le> m / 2 ^ 52"
      by (simp add: pos_le_divide_eq)
    then show ?thesis by simp
  qed
  ultimately have "m - m / 2 ^ 53 \<le> round_mag m"
    by linarith
  moreover have "(2::real) ^ 1024 \<le> m - m / 2 ^ 53"
  proof -
    have "m / 2 ^ 53 \<le> m / 2"
      using one by (intro divide_left_mono) simp_all
    then have "m / 2 \<le> m - m / 2 ^ 53"
      by simp
    moreover have "(2::real) ^ 1024 \<le> m / 2"
      using assms by simp
    ultimately show ?thesis by linarith
  qed
  ultimately have "\<not> round_mag m < 2 ^ 1024"
    by linarith
  then show ?thesis
    by (simp add: to_float_def Let_def)
qed

lemma big_literal: "py_float ''1e400'' = Some (Infty False)"
proof -
  have d: "decimal ''1e400'' = Some (10 ^ 400)"
    by (simp add: decimal_def split_at_def mantissa_def exponent_def scale10_def digitpart_def is_digit_def
        digit_val_def)
  have "(2::real) ^ 1025 \<le> 10 ^ 400"
    by simp
  then have "to_float False (10 ^ 400) = Infty False"
    by (rule to_float_overflow)
  then show ?thesis
    by (simp add: py_float_def strip_def is_ws_def lower_def lower_char_def d)
qed

lemma to_float_sign: "to_float neg x = Num a b \<Longrightarrow> a = neg"
  by (simp add: to_float_def Let_def split: if_splits)

lemma num_val_simps [simp]: "num_val False m = m" "num_val True m = - m"
  by (simp_all add: num_val_def)

lemma lit_hundredth: "lit (1 / 100) = 5764607523034235 / 2 ^ 59"
  by (simp add: flt_defs)

lemma lit_tenth: "lit (1 / 10) = 3602879701896397 / 2 ^ 55"
  by (simp add: flt_defs)

subsection \<open>Bar and beat\<close>

lemma int_floordiv4: "int_of (floordiv4 (Num neg m)) = Some \<lfloor>num_val neg m / 4\<rfloor>"
proof -
  define q where "q = \<lfloor>num_val neg m / 4\<rfloor>"
  have "(if (if q = 0 then neg else q < 0) then - \<lfloor>\<bar>real_of_int q\<bar>\<rfloor> else \<lfloor>\<bar>real_of_int q\<bar>\<rfloor>) = q"
    by (cases "q < 0") auto
  then show ?thesis
    by (simp add: Let_def q_def [symmetric])
qed

lemma fmod4_range: "0 \<le> fmod4 m \<and> fmod4 m < 4"
proof -
  have "real_of_int \<lfloor>m / 4\<rfloor> \<le> m / 4" and "m / 4 < real_of_int \<lfloor>m / 4\<rfloor> + 1"
    by linarith+
  then show ?thesis
    unfolding fmod4_def by linarith
qed

text \<open>
  Claim C8. \<^verbatim>\<open>format_beats\<close> maps a beat offset (four beats to the bar, counted from 0)
  to the text \<^verbatim>\<open><bar>.<beat>\<close>: the bar is \<open>\<lfloor>offset / 4\<rfloor> + 1\<close>, and the beat is the offset
  modulo 4 plus 1, computed in binary64 and printed with one decimal. For an offset that
  is not negative the remainder is exact, \<open>offset - 4 \<lfloor>offset / 4\<rfloor>\<close>, and lies in
  \<open>[0, 4)\<close>. Text that is no finite number is returned unchanged. Beat 0 gives
  \<^verbatim>\<open>1.1.0\<close> and beat 4 gives \<^verbatim>\<open>2.1.0\<close>.
\<close>

theorem format_beats_bar_beat:
  "format_beats s =
     (case py_float s of
        None \<Rightarrow> s
      | Some (Num neg m) \<Rightarrow>
          show_int (\<lfloor>num_val neg m / 4\<rfloor> + 1) @ ''.'' @ fmt_f 1 (flt_add (mod4 (Num neg m)) (Num False 1))
      | Some (Infty neg) \<Rightarrow> s
      | Some NaN \<Rightarrow> s)
   \<and> mod4 (Num False m) = Num False (m - 4 * of_int \<lfloor>m / 4\<rfloor>)
   \<and> 0 \<le> m - 4 * of_int \<lfloor>m / 4\<rfloor> \<and> m - 4 * of_int \<lfloor>m / 4\<rfloor> < 4
   \<and> format_beats ''0'' = ''1.1.0'' \<and> format_beats ''4'' = ''2.1.0''"
proof -
  have general: "format_beats s =
     (case py_float s of
        None \<Rightarrow> s
      | Some (Num neg m) \<Rightarrow>
          show_int (\<lfloor>num_val neg m / 4\<rfloor> + 1) @ ''.'' @ fmt_f 1 (flt_add (mod4 (Num neg m)) (Num False 1))
      | Some (Infty neg) \<Rightarrow> s
      | Some NaN \<Rightarrow> s)"
  proof (cases "py_float s")
    case None
    then show ?thesis by (simp add: format_beats_def)
  next
    case (Some x)
    show ?thesis
    proof (cases x)
      case (Num neg m)
      with Some show ?thesis
        by (simp add: format_beats_def format_beats_val_def int_floordiv4 del: floordiv4.simps mod4.simps)
    next
      case (Infty neg)
      with Some show ?thesis
        by (simp add: format_beats_def format_beats_val_def)
    next
      case NaN
      with Some show ?thesis
        by (simp add: format_beats_def format_beats_val_def)
    qed
  qed
  have exact: "mod4 (Num False m) = Num False (m - 4 * of_int \<lfloor>m / 4\<rfloor>)"
    by (simp add: fmod4_def Let_def)
  have range: "0 \<le> m - 4 * of_int \<lfloor>m / 4\<rfloor> \<and> m - 4 * of_int \<lfloor>m / 4\<rfloor> < 4"
    using fmod4_range [of m] by (simp add: fmod4_def)
  have zero: "format_beats ''0'' = ''1.1.0''"
    by (simp add: format_beats_def format_beats_val_def flt_defs)
  have four: "format_beats ''4'' = ''2.1.0''"
    by (simp add: format_beats_def format_beats_val_def flt_defs)
  from general exact range zero four show ?thesis by blast
qed

theorem format_beats_bar_beat_witness:
  "py_float ''6.45'' = Some (Num False (7262054399134925 / 2 ^ 50))
   \<and> mod4 (Num False (7262054399134925 / 2 ^ 50)) = Num False (2758454771764429 / 2 ^ 50)
   \<and> flt_add (Num False (2758454771764429 / 2 ^ 50)) (Num False 1) = Num False (3884354678607053 / 2 ^ 50)
   \<and> format_beats ''6.45'' = ''2.3.5''"
proof -
  have p: "py_float ''6.45'' = Some (Num False (7262054399134925 / 2 ^ 50))"
    by (simp add: flt_defs)
  have r: "mod4 (Num False (7262054399134925 / 2 ^ 50)) = Num False (2758454771764429 / 2 ^ 50)"
    using format_beats_bar_beat [of "''6.45''" "7262054399134925 / 2 ^ 50"] by simp
  have a: "flt_add (Num False (2758454771764429 / 2 ^ 50)) (Num False 1) = Num False (3884354678607053 / 2 ^ 50)"
    by (simp add: flt_defs)
  have "format_beats ''6.45'' =
      show_int (\<lfloor>num_val False (7262054399134925 / 2 ^ 50) / 4\<rfloor> + 1) @ ''.''
      @ fmt_f 1 (flt_add (mod4 (Num False (7262054399134925 / 2 ^ 50))) (Num False 1))"
    using format_beats_bar_beat [of "''6.45''"] by (simp add: p)
  then have "format_beats ''6.45'' = ''2.3.5''"
    unfolding r a by (simp add: flt_defs)
  with p r a show ?thesis by simp
qed

subsection \<open>Pan\<close>

text \<open>
  The claim that the pan percentage is rounded fails: the pan value 0.03125 is a binary64
  value, its product with 50 is exactly 1.5625, which rounds to 2, and the code prints
  \<^verbatim>\<open>R1\<close>.
\<close>

theorem format_pan_rounds_counterexample:
  "py_float ''0.03125'' = Some (Num False (1 / 32))
   \<and> flt_mul (Num False (1 / 32)) 50 = Num False (25 / 16)
   \<and> format_pan ''0.03125'' = ''R1''
   \<and> ''R'' @ show_int (round (25 / 16 :: real)) = ''R2''
   \<and> ''R'' @ show_int (round_half_even (25 / 16)) = ''R2''"
proof -
  have "round ((25::real) / 16) = 2"
    by (simp add: round_def)
  then show ?thesis
    by (simp add: format_pan_def format_pan_val_def flt_defs)
qed

lemma pan_finite:
  assumes "0 \<le> m" and "m \<le> 1"
  shows "format_pan_val (Num neg m) =
      Some (if m < lit (1 / 100) then ''C''
            else (if neg then ''L'' else ''R'') @ show_int \<lfloor>round_mag (m * 50)\<rfloor>)"
proof -
  have small: "to_float False (m * 50) = Num False (round_mag (m * 50))"
    using assms by (intro to_float_small) simp_all
  have side: "\<not> m < lit (1 / 100) \<Longrightarrow> (num_val neg m < 0) = neg"
    by (simp add: lit_hundredth num_val_def)
  show ?thesis
    using side by (simp add: format_pan_val_def small)
qed

text \<open>
  Claim C4, amended. For a pan value of magnitude at most 1, \<^verbatim>\<open>format_pan\<close> gives
  \<^verbatim>\<open>C\<close> exactly when the magnitude is below the float 0.01, and otherwise \<^verbatim>\<open>L\<close> for a
  negative and \<^verbatim>\<open>R\<close> for a positive value, followed by the binary64 product of the
  magnitude and 50 with its fraction cut off (not rounded). Text that is no number, an
  infinity or a NaN gives \<^verbatim>\<open>C\<close>. The value 0.0 gives \<^verbatim>\<open>C\<close> and 0.02 gives
  \<^verbatim>\<open>R1\<close>; the literal \<^verbatim>\<open>1e400\<close> overflows to an infinity and gives \<^verbatim>\<open>C\<close>.
\<close>

theorem format_pan_truncates:
  "format_pan s =
     (case py_float s of
        None \<Rightarrow> ''C''
      | Some (Num neg m) \<Rightarrow>
          if m < lit (1 / 100) then ''C''
          else (case flt_mul (Num False m) 50 of
                  Num pneg p \<Rightarrow> (if neg then ''L'' else ''R'') @ show_int \<lfloor>p\<rfloor>
                | Infty pneg \<Rightarrow> ''C''
                | NaN \<Rightarrow> ''C'')
      | Some (Infty neg) \<Rightarrow> ''C''
      | Some NaN \<Rightarrow> ''C'')
   \<and> (0 \<le> m \<and> m \<le> 1 \<longrightarrow>
        format_pan_val (Num neg m) =
          Some (if m < lit (1 / 100) then ''C''
                else (if neg then ''L'' else ''R'') @ show_int \<lfloor>round_mag (m * 50)\<rfloor>)
        \<and> (format_pan_val (Num neg m) = Some ''C'') = (m < lit (1 / 100)))
   \<and> lit (1 / 100) = 5764607523034235 / 2 ^ 59
   \<and> format_pan ''0.0'' = ''C'' \<and> format_pan ''0.02'' = ''R1''
   \<and> format_pan ''1e400'' = ''C''"
proof -
  have general: "format_pan s =
     (case py_float s of
        None \<Rightarrow> ''C''
      | Some (Num neg m) \<Rightarrow>
          if m < lit (1 / 100) then ''C''
          else (case flt_mul (Num False m) 50 of
                  Num pneg p \<Rightarrow> (if neg then ''L'' else ''R'') @ show_int \<lfloor>p\<rfloor>
                | Infty pneg \<Rightarrow> ''C''
                | NaN \<Rightarrow> ''C'')
      | Some (Infty neg) \<Rightarrow> ''C''
      | Some NaN \<Rightarrow> ''C'')"
  proof (cases "py_float s")
    case None
    then show ?thesis by (simp add: format_pan_def)
  next
    case (Some x)
    show ?thesis
    proof (cases x)
      case (Num neg m)
      have side: "\<not> m < lit (1 / 100) \<Longrightarrow> (num_val neg m < 0) = neg"
        by (simp add: lit_hundredth num_val_def)
      show ?thesis
      proof (cases "flt_mul (Num False m) 50")
        case (Num pneg p)
        then have "pneg = False"
          using to_float_sign [of False "m * 50" pneg p] by simp
        with Some \<open>x = Num neg m\<close> Num side show ?thesis
          by (simp add: format_pan_def format_pan_val_def del: flt_mul.simps)
      next
        case (Infty pneg)
        with Some \<open>x = Num neg m\<close> show ?thesis
          by (simp add: format_pan_def format_pan_val_def del: flt_mul.simps)
      next
        case NaN
        with Some \<open>x = Num neg m\<close> show ?thesis
          by (simp add: format_pan_def format_pan_val_def del: flt_mul.simps)
      qed
    next
      case (Infty neg)
      with Some show ?thesis
        by (simp add: format_pan_def format_pan_val_def)
    next
      case NaN
      with Some show ?thesis
        by (simp add: format_pan_def format_pan_val_def)
    qed
  qed
  have finite: "0 \<le> m \<and> m \<le> 1 \<longrightarrow>
        format_pan_val (Num neg m) =
          Some (if m < lit (1 / 100) then ''C''
                else (if neg then ''L'' else ''R'') @ show_int \<lfloor>round_mag (m * 50)\<rfloor>)
        \<and> (format_pan_val (Num neg m) = Some ''C'') = (m < lit (1 / 100))"
    by (auto simp: pan_finite)
  have centre: "format_pan ''0.0'' = ''C''"
    by (simp add: format_pan_def format_pan_val_def flt_defs)
  have right: "format_pan ''0.02'' = ''R1''"
    by (simp add: format_pan_def format_pan_val_def flt_defs)
  have huge: "format_pan ''1e400'' = ''C''"
    by (simp add: format_pan_def format_pan_val_def big_literal)
  from general finite lit_hundredth centre right huge show ?thesis by blast
qed

theorem format_pan_truncates_witness:
  "py_float ''0.58'' = Some (Num False (5224175567749775 / 2 ^ 53))
   \<and> (0::real) \<le> 5224175567749775 / 2 ^ 53 \<and> (5224175567749775 / 2 ^ 53 :: real) \<le> 1
   \<and> round_mag (5224175567749775 / 2 ^ 53 * 50) = 8162774324609023 / 2 ^ 48
   \<and> format_pan_val (Num False (5224175567749775 / 2 ^ 53)) = Some ''R28''
   \<and> format_pan ''0.58'' = ''R28''"
proof -
  have p: "py_float ''0.58'' = Some (Num False (5224175567749775 / 2 ^ 53))"
    by (simp add: flt_defs)
  have range: "(0::real) \<le> 5224175567749775 / 2 ^ 53 \<and> (5224175567749775 / 2 ^ 53 :: real) \<le> 1"
    by simp
  have product: "round_mag (5224175567749775 / 2 ^ 53 * 50) = 8162774324609023 / 2 ^ 48"
    by (simp add: flt_defs)
  have "format_pan_val (Num False (5224175567749775 / 2 ^ 53)) =
      Some (if (5224175567749775 / 2 ^ 53 :: real) < lit (1 / 100) then ''C''
            else (if False then ''L'' else ''R'') @ show_int \<lfloor>round_mag (5224175567749775 / 2 ^ 53 * 50)\<rfloor>)"
    using format_pan_truncates [of _ "5224175567749775 / 2 ^ 53" False] range by blast
  then have v: "format_pan_val (Num False (5224175567749775 / 2 ^ 53)) = Some ''R28''"
    unfolding product by (simp add: lit_hundredth flt_defs)
  then have "format_pan ''0.58'' = ''R28''"
    by (simp add: format_pan_def p)
  with p range product v show ?thesis by simp
qed

subsection \<open>Generic parameters\<close>

lemma whole_iff: "flt_eq (Num neg m) (of_int (if neg then - \<lfloor>m\<rfloor> else \<lfloor>m\<rfloor>)) = (m \<in> \<int>)"
proof -
  have "(m = of_int \<lfloor>m\<rfloor>) = (m \<in> \<int>)"
    by (metis Ints_of_int of_int_floor)
  then show ?thesis
    by (cases neg) (auto simp: equation_minus_iff)
qed

lemma guard_on_off:
  "fst rule_on_off v n =
     ((flt_eq v 0 \<or> flt_eq v 1) \<and> (\<not> contains n ''time'' \<and> \<not> contains n ''rate''
        \<and> (contains n ''on'' \<or> contains n ''sync'' \<or> contains n ''link'' \<or> contains n ''freeze'')))"
  by (simp add: rule_on_off_def any_of_def)

lemma guard_percent:
  "fst rule_percent v n =
     (flt_ge v 0 \<and> flt_le v 1
      \<and> (contains n ''wet'' \<or> contains n ''mix'' \<or> contains n ''amount'' \<or> contains n ''feedback''
           \<or> contains n ''depth'' \<or> contains n ''gain'' \<or> contains n ''drive'' \<or> contains n ''resonance''))"
  by (simp add: rule_percent_def any_of_def)

lemma guard_frequency:
  "fst rule_frequency v n = (contains n ''freq'' \<and> \<not> contains n ''mod'')"
  by (simp add: rule_frequency_def any_of_def)

lemma guard_short_time:
  "fst rule_short_time v n =
     ((contains n ''timesec'' \<or> contains n ''attack'' \<or> contains n ''release'' \<or> contains n ''predelay'')
      \<and> flt_lt v 10)"
  by (simp add: rule_short_time_def any_of_def)

lemma render_on_off: "snd rule_on_off v = (if flt_eq v 1 then ''on'' else ''off'')"
  by (simp add: rule_on_off_def)

lemma render_percent: "snd rule_percent v = fmt_f 0 (flt_mul v 100) @ ''%''"
  by (simp add: rule_percent_def)

lemma render_short_time:
  "snd rule_short_time v = (if flt_lt v 1 then fmt_f 0 (flt_mul v 1000) @ ''ms'' else fmt_f 2 v @ ''s'')"
  by (simp add: rule_short_time_def)

lemma render_frequency:
  "snd rule_frequency (Num neg m) =
     (if flt_ge (Num neg m) 1000 then fmt_f 1 (flt_div (Num neg m) 1000) @ ''kHz''
      else fmt_f 0 (Num neg m) @ ''Hz'')"
  by (simp add: rule_frequency_def flt_ge_def del: flt_div.simps fmt_f.simps)

lemma render_fallback:
  "Some (snd rule_fallback (Num neg m)) =
     (case int_of (Num neg m) of
        None \<Rightarrow> None
      | Some i \<Rightarrow> if flt_eq (Num neg m) (of_int i) then Some (show_int i) else Some (fmt_f 2 (Num neg m)))"
  using whole_iff [of neg m] by (simp add: rule_fallback_def del: flt_eq.simps fmt_f.simps)

lemma first_rule_cascade:
  "first_rule param_rules v n =
     (if fst rule_on_off v n then Some (snd rule_on_off v)
      else if fst rule_percent v n then Some (snd rule_percent v)
      else if fst rule_frequency v n then Some (snd rule_frequency v)
      else if fst rule_short_time v n then Some (snd rule_short_time v)
      else Some (snd rule_fallback v))"
  by (simp add: param_rules_def rule_fallback_def)

lemma param_val_cascade:
  "format_param_val v name =
     (if fst rule_on_off v (lower name) then Some (snd rule_on_off v)
      else if fst rule_percent v (lower name) then Some (snd rule_percent v)
      else if contains (lower name) ''freq'' \<and> \<not> contains (lower name) ''mod''
      then Some (if flt_ge v 1000 then fmt_f 1 (flt_div v 1000) @ ''kHz'' else fmt_f 0 v @ ''Hz'')
      else if fst rule_short_time v (lower name) then Some (snd rule_short_time v)
      else (case int_of v of
              None \<Rightarrow> None
            | Some i \<Rightarrow> if flt_eq v (of_int i) then Some (show_int i) else Some (fmt_f 2 v)))"
  unfolding format_param_val_def Let_def guard_on_off guard_percent guard_short_time
    render_on_off render_percent render_short_time
  by (rule refl)

text \<open>
  Claim C3. For a finite value, \<^verbatim>\<open>format_param\<close> is the ordered rule table of the
  specification, tried top to bottom on the lower-cased name, the first matching rule
  winning: on/off, percent, frequency, short time, and the integer or two-decimal
  fallback. A name with both \<^verbatim>\<open>gain\<close> and \<^verbatim>\<open>freq\<close> and a value in \<open>[0, 1]\<close> is
  rendered by the percent rule whenever the on/off rule does not apply. The arithmetic
  is binary64: 0.575 under the name \<^verbatim>\<open>Gain\<close> is printed as \<^verbatim>\<open>57%\<close>. Text that is
  no number is returned unchanged.
\<close>

theorem format_param_rule_order:
  "format_param_spec (Num neg m) name = format_param_val (Num neg m) name
   \<and> (py_float s = Some (Num neg m) \<longrightarrow>
        format_param_spec (Num neg m) name \<noteq> None
        \<and> format_param s name = the (format_param_spec (Num neg m) name))
   \<and> (flt_ge v 0 \<and> flt_le v 1 \<and> contains (lower name) ''gain'' \<and> contains (lower name) ''freq''
        \<and> \<not> fst rule_on_off v (lower name)
        \<longrightarrow> format_param_val v name = Some (fmt_f 0 (flt_mul v 100) @ ''%''))
   \<and> (py_float s = None \<longrightarrow> format_param s name = s)
   \<and> format_param ''0.5'' ''GainFreq'' = ''50%''
   \<and> format_param ''0.575'' ''Gain'' = ''57%''"
proof -
  have spec: "format_param_spec (Num neg m) name = format_param_val (Num neg m) name"
    unfolding format_param_spec_def first_rule_cascade param_val_cascade guard_frequency
      render_frequency render_fallback
    by (rule refl)
  have some: "format_param_spec (Num neg m) name \<noteq> None"
    by (simp add: format_param_spec_def first_rule_cascade)
  have text_form: "py_float s = Some (Num neg m) \<longrightarrow>
        format_param_spec (Num neg m) name \<noteq> None
        \<and> format_param s name = the (format_param_spec (Num neg m) name)"
  proof
    assume p: "py_float s = Some (Num neg m)"
    from some obtain r where r: "format_param_spec (Num neg m) name = Some r"
      by blast
    with spec have "format_param_val (Num neg m) name = Some r"
      by simp
    with p r some show "format_param_spec (Num neg m) name \<noteq> None
        \<and> format_param s name = the (format_param_spec (Num neg m) name)"
      by (simp add: format_param_def)
  qed
  have both: "flt_ge v 0 \<and> flt_le v 1 \<and> contains (lower name) ''gain'' \<and> contains (lower name) ''freq''
        \<and> \<not> fst rule_on_off v (lower name)
        \<longrightarrow> format_param_val v name = Some (fmt_f 0 (flt_mul v 100) @ ''%'')"
  proof
    assume h: "flt_ge v 0 \<and> flt_le v 1 \<and> contains (lower name) ''gain'' \<and> contains (lower name) ''freq''
        \<and> \<not> fst rule_on_off v (lower name)"
    then have "fst rule_percent v (lower name)"
      by (simp add: guard_percent)
    with h show "format_param_val v name = Some (fmt_f 0 (flt_mul v 100) @ ''%'')"
      by (simp add: param_val_cascade render_percent)
  qed
  have example: "format_param ''0.5'' ''GainFreq'' = ''50%''"
    by (simp add: format_param_def format_param_val_def flt_defs)
  have binary: "format_param ''0.575'' ''Gain'' = ''57%''"
    by (simp add: format_param_def format_param_val_def flt_defs)
  have other: "py_float s = None \<longrightarrow> format_param s name = s"
    by (simp add: format_param_def)
  from spec text_form both other example binary show ?thesis by blast
qed

theorem format_param_rule_order_witness:
  "py_float ''0.25'' = Some (Num False (1 / 4))
   \<and> flt_ge (Num False (1 / 4)) 0 \<and> flt_le (Num False (1 / 4)) 1
   \<and> contains (lower ''GainFreq'') ''gain'' \<and> contains (lower ''GainFreq'') ''freq''
   \<and> \<not> fst rule_on_off (Num False (1 / 4)) (lower ''GainFreq'')
   \<and> format_param_val (Num False (1 / 4)) ''GainFreq'' = Some ''25%''
   \<and> format_param_spec (Num False (1 / 4)) ''GainFreq'' = Some ''25%''
   \<and> format_param ''0.25'' ''GainFreq'' = ''25%''"
proof -
  have p: "py_float ''0.25'' = Some (Num False (1 / 4))"
    by (simp add: flt_defs)
  have range: "flt_ge (Num False (1 / 4)) 0 \<and> flt_le (Num False (1 / 4)) 1"
    by (simp add: flt_ge_def)
  have names: "contains (lower ''GainFreq'') ''gain'' \<and> contains (lower ''GainFreq'') ''freq''"
    by (simp add: lower_def lower_char_def)
  have off: "\<not> fst rule_on_off (Num False (1 / 4)) (lower ''GainFreq'')"
    by (simp add: guard_on_off)
  note th = format_param_rule_order [of False "1 / 4" "''GainFreq''" "''0.25''" "Num False (1 / 4)"]
  from th range names off
  have "format_param_val (Num False (1 / 4)) ''GainFreq'' = Some (fmt_f 0 (flt_mul (Num False (1 / 4)) 100) @ ''%'')"
    by blast
  then have v: "format_param_val (Num False (1 / 4)) ''GainFreq'' = Some ''25%''"
    by (simp add: flt_defs)
  from th v have sp: "format_param_spec (Num False (1 / 4)) ''GainFreq'' = Some ''25%''"
    by simp
  from th p have "format_param ''0.25'' ''GainFreq'' = the (format_param_spec (Num False (1 / 4)) ''GainFreq'')"
    by blast
  with sp have t: "format_param ''0.25'' ''GainFreq'' = ''25%''"
    by simp
  from p range names off v sp t show ?thesis by simp
qed

subsection \<open>Decibels\<close>

lemma log10_2_lower: "59 / 196 < log 10 (2::real)"
proof -
  have a: "log 10 ((2::real) ^ 196) = real 196 * log 10 2"
    by (rule log_nat_power) simp
  have b: "log 10 ((10::real) ^ 59) = real 59"
    by (rule log_pow_cancel) simp_all
  have c: "log 10 ((10::real) ^ 59) < log 10 (2 ^ 196)"
    by (subst log_less_cancel_iff) simp_all
  from a b c have "real 59 < real 196 * log 10 2"
    by (simp only:)
  then show ?thesis by simp
qed

lemma log10_2_upper: "log 10 (2::real) < 28 / 93"
proof -
  have a: "log 10 ((2::real) ^ 93) = real 93 * log 10 2"
    by (rule log_nat_power) simp
  have b: "log 10 ((10::real) ^ 28) = real 28"
    by (rule log_pow_cancel) simp_all
  have c: "log 10 ((2::real) ^ 93) < log 10 (10 ^ 28)"
    by (subst log_less_cancel_iff) simp_all
  from a b c have "real 93 * log 10 2 < real 28"
    by (simp only:)
  then show ?thesis by simp
qed

lemma log10_half: "log 10 (1 / 2 :: real) = - log 10 2"
  by (simp add: log_divide)

text \<open>The decibel value of 0.5, for any \<^verbatim>\<open>log10\<close> that is accurate to four decimals there.\<close>

lemma db_half:
  assumes close: "\<bar>lg (1 / 2) - log 10 (1 / 2)\<bar> \<le> 1 / 10 ^ 4"
  shows "\<exists>d. flt_mul (log10_flt lg (Num False (1 / 2))) 20 = Num True d \<and> 6017 / 1000 < d \<and> d < 6025 / 1000"
proof -
  define x where "x = lg (1 / 2)"
  define w where "w = round_mag \<bar>x\<bar>"
  define y where "y = w * 20"
  have c: "\<bar>x + log 10 2\<bar> \<le> 1 / 10000"
    using close by (simp add: x_def log10_half)
  have lo: "x < - (3009 / 10000)"
    using c log10_2_lower by linarith
  have hi: "- (3012 / 10000) < x"
    using c log10_2_upper by linarith
  have ax: "3009 / 10000 < \<bar>x\<bar> \<and> \<bar>x\<bar> < 3012 / 10000"
    using lo hi by linarith
  have ex: "expo \<bar>x\<bar> = - 2"
    using ax by (simp add: expo_def scale_down.simps scale_up.simps)
  have "\<bar>round_mag \<bar>x\<bar> - \<bar>x\<bar>\<bar> \<le> pow2 (max (expo \<bar>x\<bar>) (- 1022) - 52) / 2"
    using ax by (intro round_mag_near) linarith
  then have nearx: "\<bar>w - \<bar>x\<bar>\<bar> \<le> 1 / 2 ^ 55"
    by (simp add: ex pow2_def w_def)
  have tiny: "(1::real) / 2 ^ 55 < 1 / 1000000" "(1::real) / 2 ^ 51 < 1 / 10000"
    by simp_all
  have w: "30089 / 100000 < w \<and> w < 30121 / 100000"
    using nearx ax tiny by linarith
  have lg: "log10_flt lg (Num False (1 / 2)) = Num True w"
    using lo ax to_float_small [of "\<bar>x\<bar>" True]
    by (simp add: Let_def x_def [symmetric] w_def)
  have y: "60178 / 10000 < y \<and> y < 60242 / 10000"
    using w unfolding y_def by linarith
  have e: "expo y = 2"
    using y by (simp add: expo_def scale_down.simps)
  have "\<bar>round_mag y - y\<bar> \<le> pow2 (max (expo y) (- 1022) - 52) / 2"
    using y by (intro round_mag_near) linarith
  then have near: "\<bar>round_mag y - y\<bar> \<le> 1 / 2 ^ 51"
    by (simp add: e pow2_def)
  with y tiny have r: "6017 / 1000 < round_mag y \<and> round_mag y < 6025 / 1000"
    by linarith
  have "to_float True y = Num True (round_mag y)"
    using y by (intro to_float_small) simp_all
  then have "flt_mul (log10_flt lg (Num False (1 / 2))) 20 = Num True (round_mag y)"
    unfolding lg flt_mul.simps y_def by simp
  then show ?thesis
    using r by simp
qed

lemma format_db_half:
  assumes "\<bar>lg (1 / 2) - log 10 (1 / 2)\<bar> \<le> 1 / 10 ^ 4"
  shows "format_db_val lg (Num False (1 / 2)) = Some ''-6.0dB''"
proof -
  from assms db_half [of lg] obtain d where
    db: "flt_mul (log10_flt lg (Num False (1 / 2))) 20 = Num True d"
    and lo: "6017 / 1000 < d" and hi: "d < 6025 / 1000"
    by blast
  have fl: "\<lfloor>d\<rfloor> = 6"
    using lo hi by (intro floor_unique) simp_all
  have not_whole: "- d \<noteq> - 6"
    using lo by simp
  have big: "\<not> d < lit (1 / 10)"
    using lo by (simp add: lit_tenth)
  have rnd: "round_half_even (d * 10 ^ Suc 0) = 60"
    using lo hi by (intro round_half_even_eq) simp_all
  have digits: "fixed (Suc 0) d = ''6.0''"
    unfolding fixed_def rnd Let_def
    by (simp add: pad_left_def show_nat.simps digit_char_def)
  show ?thesis
    unfolding format_db_val_def Let_def db
    using big not_whole by (simp add: fl digits)
qed

lemma format_db_general:
  "format_db lg s =
     (case py_float s of
        None \<Rightarrow> ''0dB''
      | Some (Num neg m) \<Rightarrow>
          if num_val neg m \<le> 0 then ''-inf''
          else (case flt_mul (log10_flt lg (Num neg m)) 20 of
                  Num dneg d \<Rightarrow>
                    if d < lit (1 / 10) then ''0dB''
                    else if d \<in> \<int> then fmt_plus_d (if dneg then - \<lfloor>d\<rfloor> else \<lfloor>d\<rfloor>) @ ''dB''
                    else (if dneg then ''-'' else ''+'') @ fixed 1 d @ ''dB''
                | Infty dneg \<Rightarrow> ''0dB''
                | NaN \<Rightarrow> ''0dB'')
      | Some (Infty neg) \<Rightarrow> (if neg then ''-inf'' else ''0dB'')
      | Some NaN \<Rightarrow> ''0dB'')"
proof (cases "py_float s")
  case None
  then show ?thesis by (simp add: format_db_def)
next
  case (Some val)
  show ?thesis
  proof (cases val)
    case (Num neg m)
    show ?thesis
    proof (cases "flt_mul (log10_flt lg (Num neg m)) 20")
      case db: (Num dneg d)
      show ?thesis
        using Some Num db whole_iff [of dneg d]
        by (simp add: format_db_def format_db_flt_def format_db_val_def Let_def
            del: flt_mul.simps log10_flt.simps flt_eq.simps)
    next
      case db: (Infty dneg)
      show ?thesis
        using Some Num db
        by (simp add: format_db_def format_db_flt_def format_db_val_def Let_def
            del: flt_mul.simps log10_flt.simps)
    next
      case db: NaN
      show ?thesis
        using Some Num db
        by (simp add: format_db_def format_db_flt_def format_db_val_def Let_def
            del: flt_mul.simps log10_flt.simps)
    qed
  next
    case (Infty neg)
    with Some show ?thesis
      by (simp add: format_db_def format_db_flt_def format_db_val_def Let_def)
  next
    case NaN
    with Some show ?thesis
      by (simp add: format_db_def format_db_flt_def format_db_val_def Let_def)
  qed
qed

lemma lit_three_tenths: "lit (3 / 10) = 5404319552844595 / 2 ^ 54"
  by (simp add: flt_defs)

lemma format_db_six:
  assumes "lg (561616413637515 / 2 ^ 48) = lit (3 / 10)"
  shows "format_db_val lg (Num False (561616413637515 / 2 ^ 48)) = Some ''+6dB''"
proof -
  have l: "log10_flt lg (Num False (561616413637515 / 2 ^ 48)) = Num False (5404319552844595 / 2 ^ 54)"
    unfolding log10_flt.simps assms lit_three_tenths Let_def by (simp add: flt_defs)
  have db: "flt_mul (Num False (5404319552844595 / 2 ^ 54)) 20 = Num False 6"
    by (simp add: flt_defs)
  show ?thesis
    unfolding format_db_val_def Let_def l db
    by (simp add: lit_tenth flt_defs)
qed

text \<open>
  Claim C5. For every text \<open>s\<close> and every \<^verbatim>\<open>log10\<close> function, \<^verbatim>\<open>format_db\<close> is the
  following function of the float that \<open>s\<close> denotes: \<^verbatim>\<open>-inf\<close> for a zero, a negative
  number and the negative infinity; otherwise, with \<open>d\<close> the magnitude of the decibel
  value \<^verbatim>\<open>20 * log10(val)\<close>, \<^verbatim>\<open>0dB\<close> when \<open>d\<close> is below the float 0.1, the signed
  integer when \<open>d\<close> is whole, and the signed one-decimal string otherwise; \<^verbatim>\<open>0dB\<close> for
  text that is no number, for a NaN, for the positive infinity and when the decibel
  value is not finite. Linear 1.0 renders as \<^verbatim>\<open>0dB\<close> when the logarithm of 1 is 0,
  linear 0.5 as \<^verbatim>\<open>-6.0dB\<close> when the logarithm is within \<open>10\<^sup>-\<^sup>4\<close> of the true one
  there, linear 0, -0.0 and -2.5 as \<^verbatim>\<open>-inf\<close>, and the integer form is reached: at
  1.9952623149688797, where the logarithm is the float 0.3, the result is \<^verbatim>\<open>+6dB\<close>.
\<close>

theorem format_db_decibels:
  "format_db lg s =
     (case py_float s of
        None \<Rightarrow> ''0dB''
      | Some (Num neg m) \<Rightarrow>
          if num_val neg m \<le> 0 then ''-inf''
          else (case flt_mul (log10_flt lg (Num neg m)) 20 of
                  Num dneg d \<Rightarrow>
                    if d < lit (1 / 10) then ''0dB''
                    else if d \<in> \<int> then fmt_plus_d (if dneg then - \<lfloor>d\<rfloor> else \<lfloor>d\<rfloor>) @ ''dB''
                    else (if dneg then ''-'' else ''+'') @ fixed 1 d @ ''dB''
                | Infty dneg \<Rightarrow> ''0dB''
                | NaN \<Rightarrow> ''0dB'')
      | Some (Infty neg) \<Rightarrow> (if neg then ''-inf'' else ''0dB'')
      | Some NaN \<Rightarrow> ''0dB'')
   \<and> lit (1 / 10) = 3602879701896397 / 2 ^ 55
   \<and> (lg 1 = 0 \<longrightarrow> format_db lg ''1.0'' = ''0dB'')
   \<and> (\<bar>lg (1 / 2) - log 10 (1 / 2)\<bar> \<le> 1 / 10 ^ 4 \<longrightarrow> format_db lg ''0.5'' = ''-6.0dB'')
   \<and> format_db lg ''0'' = ''-inf''
   \<and> format_db lg ''-0.0'' = ''-inf''
   \<and> format_db lg ''-2.5'' = ''-inf''
   \<and> (lg (561616413637515 / 2 ^ 48) = lit (3 / 10)
        \<longrightarrow> format_db lg ''1.9952623149688797'' = ''+6dB'')"
proof -
  have one: "py_float ''1.0'' = Some (Num False 1)"
    by (simp add: flt_defs)
  have half: "py_float ''0.5'' = Some (Num False (1 / 2))"
    by (simp add: flt_defs)
  have zero: "py_float ''0'' = Some (Num False 0)"
    by (simp add: flt_defs)
  have mzero: "py_float ''-0.0'' = Some (Num True 0)"
    by (simp add: flt_defs)
  have neg: "py_float ''-2.5'' = Some (Num True (5 / 2))"
    by (simp add: flt_defs)
  have six: "py_float ''1.9952623149688797'' = Some (Num False (561616413637515 / 2 ^ 48))"
    by (simp add: flt_defs)
  have a: "lg 1 = 0 \<longrightarrow> format_db lg ''1.0'' = ''0dB''"
    by (simp add: format_db_def format_db_flt_def format_db_val_def one lit_tenth flt_defs)
  have b: "\<bar>lg (1 / 2) - log 10 (1 / 2)\<bar> \<le> 1 / 10 ^ 4 \<longrightarrow> format_db lg ''0.5'' = ''-6.0dB''"
    using format_db_half [of lg] by (simp add: format_db_def format_db_flt_def half)
  have c: "format_db lg ''0'' = ''-inf''"
    by (simp add: format_db_def format_db_flt_def format_db_val_def zero)
  have d: "format_db lg ''-0.0'' = ''-inf''"
    by (simp add: format_db_def format_db_flt_def format_db_val_def mzero)
  have e: "format_db lg ''-2.5'' = ''-inf''"
    by (simp add: format_db_def format_db_flt_def format_db_val_def neg)
  have f: "lg (561616413637515 / 2 ^ 48) = lit (3 / 10)
      \<longrightarrow> format_db lg ''1.9952623149688797'' = ''+6dB''"
    using format_db_six [of lg] by (simp add: format_db_def format_db_flt_def six)
  from a b c d e f lit_tenth show ?thesis
    by (simp only: format_db_general [of lg s] simp_thms)
qed

theorem format_db_decibels_witness:
  "sample_log10 1 = 0
   \<and> \<bar>sample_log10 (1 / 2) - log 10 (1 / 2)\<bar> \<le> 1 / 10 ^ 4
   \<and> sample_log10 (561616413637515 / 2 ^ 48) = lit (3 / 10)
   \<and> format_db sample_log10 ''1.0'' = ''0dB''
   \<and> format_db sample_log10 ''0.5'' = ''-6.0dB''
   \<and> format_db sample_log10 ''1.9952623149688797'' = ''+6dB''
   \<and> format_db sample_log10 ''-2.5'' = ''-inf''
   \<and> format_db sample_log10 ''volume'' = ''0dB''"
proof -
  have one: "sample_log10 1 = 0"
    by (simp add: sample_log10_def)
  have v: "sample_log10 (1 / 2) = - (5422874305198591 / 18014398509481984)"
    by (simp add: sample_log10_def)
  have "\<bar>- (5422874305198591 / 18014398509481984) - (- log 10 (2::real))\<bar> \<le> 1 / 10000"
    using log10_2_lower log10_2_upper by linarith
  then have half: "\<bar>sample_log10 (1 / 2) - log 10 (1 / 2)\<bar> \<le> 1 / 10 ^ 4"
    unfolding v log10_half by simp
  have six: "sample_log10 (561616413637515 / 2 ^ 48) = lit (3 / 10)"
    by (simp add: sample_log10_def lit_three_tenths)
  have nonnum: "py_float ''volume'' = None"
    by (simp add: flt_defs)
  have other: "format_db sample_log10 ''volume'' = ''0dB''"
    using format_db_decibels [of sample_log10 "''volume''"] by (simp add: nonnum)
  from one half six other format_db_decibels [of sample_log10 "''0.5''", THEN conjunct2]
  show ?thesis
    by simp
qed

section \<open>Properties of the extractors\<close>

lemmas tree_defs = get_def findall_def find_first_def get_attr_def descendants_def

lemmas clip_defs = parse_clip_def parse_session_clip_def parse_launch_settings_def launch_nonempty_def
  clip_offset_of_def get_warp_info_def get_audio_ref_def get_clip_adjustments_def get_fades_def
  parse_midi_notes_def has_groove_def format_beats_def format_beats_val_def lookup_def

subsection \<open>Scenes\<close>

lemma upt_shift: "[0 ..< Suc n] = 0 # map Suc [0 ..< n]"
  by (simp add: upt_conv_Cons map_Suc_upt del: upt_Suc)

lemma scenes_loop_positions:
  "scenes_loop i scs =
     map (\<lambda>k. \<lparr>scene_index = i + k, scene_name = get_attr (scs ! k) [Child ''Name''] []\<rparr>)
       (filter (\<lambda>k. get_attr (scs ! k) [Child ''Name''] [] \<noteq> []
                     \<and> \<not> startswith (get_attr (scs ! k) [Child ''Name''] []) ''Scene '')
          [0 ..< length scs])"
proof (induction scs arbitrary: i)
  case Nil
  show ?case by simp
next
  case (Cons sc rest)
  have tail: "scenes_loop (i + 1) rest =
     map (\<lambda>k. \<lparr>scene_index = i + Suc k, scene_name = get_attr (rest ! k) [Child ''Name''] []\<rparr>)
       (filter (\<lambda>k. get_attr (rest ! k) [Child ''Name''] [] \<noteq> []
                     \<and> \<not> startswith (get_attr (rest ! k) [Child ''Name''] []) ''Scene '')
          [0 ..< length rest])"
    using Cons.IH [of "i + 1"] by simp
  show ?case
    unfolding scenes_loop.simps tail Let_def length_Cons upt_shift
    by (simp add: filter_map o_def del: upt_Suc)
qed

text \<open>
  Claim C10. \<^verbatim>\<open>parse_scenes\<close> keeps exactly the \<^verbatim>\<open>Scene\<close> children of the first
  \<^verbatim>\<open>Scenes\<close> element whose name is non-empty and does not start with \<^verbatim>\<open>Scene \<close>, in
  document order, and each kept scene carries its position among all \<^verbatim>\<open>Scene\<close> children,
  counted from 1: scenes that are left out do not renumber the later ones.
\<close>

theorem parse_scenes_named_positions:
  "parse_scenes r =
     (case find_first r [Desc ''Scenes''] of
        None \<Rightarrow> []
      | Some scenes_elem \<Rightarrow>
          map (\<lambda>k. \<lparr>scene_index = k + 1,
                     scene_name = get_attr (findall scenes_elem [Child ''Scene''] ! k) [Child ''Name''] []\<rparr>)
            (filter (\<lambda>k. get_attr (findall scenes_elem [Child ''Scene''] ! k) [Child ''Name''] [] \<noteq> []
                          \<and> \<not> startswith (get_attr (findall scenes_elem [Child ''Scene''] ! k) [Child ''Name''] [])
                                 ''Scene '')
               [0 ..< length (findall scenes_elem [Child ''Scene''])]))"
  by (simp add: parse_scenes_def scenes_loop_positions split: option.split)

theorem parse_scenes_named_positions_witness:
  "parse_scenes scenes_doc =
     [\<lparr>scene_index = 2, scene_name = ''Drop''\<rparr>, \<lparr>scene_index = 4, scene_name = ''Outro''\<rparr>]"
proof -
  have upt4: "[0 ..< 4] = [0, 1, 2, 3::nat]"
    by (simp add: upt_rec)
  show ?thesis
    unfolding parse_scenes_named_positions [of scenes_doc]
    by (simp add: scenes_doc_def tree_defs upt4)
qed

subsection \<open>Warp information\<close>

text \<open>
  Claim C6. For a clip whose \<^verbatim>\<open>WarpMode\<close> value is an integer: a clip that is not marked
  warped has no warp information (whatever its \<^verbatim>\<open>WarpMode\<close>); a warped clip with no
  marker has none either; with one or two markers it has the mode name only; with three
  or more it has the mode name and the marker count; a mode index outside the table has
  the name \<^verbatim>\<open>Unknown\<close>. The renderer prints the mode name, and the count when there
  is one.
\<close>

theorem get_warp_info_cases:
  "(get_attr clip [Child ''IsWarped''] ''true'' \<noteq> ''true'' \<longrightarrow> get_warp_info clip = Inr None)
   \<and> (py_int (get_attr clip [Child ''WarpMode''] ''0'') = Some m \<longrightarrow>
        get_warp_info clip =
          Inr (let n = length (findall clip [Desc ''WarpMarkers'', Child ''WarpMarker'']);
                   mode_name = (case map_of WARP_MODES m of None \<Rightarrow> ''Unknown'' | Some x \<Rightarrow> x)
               in if get_attr clip [Child ''IsWarped''] ''true'' \<noteq> ''true'' then None
                  else if n = 0 then None
                  else if n \<le> 2 then Some \<lparr>mode = mode_name, markers = None\<rparr>
                  else Some \<lparr>mode = mode_name, markers = Some n\<rparr>))
   \<and> (m \<notin> {0, 1, 2, 3, 4, 6} \<longrightarrow> (case map_of WARP_MODES m of None \<Rightarrow> ''Unknown'' | Some x \<Rightarrow> x) = ''Unknown'')
   \<and> warp_flag \<lparr>mode = x, markers = None\<rparr> = ''warped: '' @ x
   \<and> warp_flag \<lparr>mode = x, markers = Some k\<rparr> = ''warped: '' @ x @ '', '' @ show_nat k @ '' markers''"
proof -
  have unwarped: "get_attr clip [Child ''IsWarped''] ''true'' \<noteq> ''true'' \<longrightarrow> get_warp_info clip = Inr None"
    by (simp add: get_warp_info_def)
  have cases: "py_int (get_attr clip [Child ''WarpMode''] ''0'') = Some m \<longrightarrow>
        get_warp_info clip =
          Inr (let n = length (findall clip [Desc ''WarpMarkers'', Child ''WarpMarker'']);
                   mode_name = (case map_of WARP_MODES m of None \<Rightarrow> ''Unknown'' | Some x \<Rightarrow> x)
               in if get_attr clip [Child ''IsWarped''] ''true'' \<noteq> ''true'' then None
                  else if n = 0 then None
                  else if n \<le> 2 then Some \<lparr>mode = mode_name, markers = None\<rparr>
                  else Some \<lparr>mode = mode_name, markers = Some n\<rparr>)"
    by (auto simp: get_warp_info_def Let_def)
  have unknown: "m \<notin> {0, 1, 2, 3, 4, 6} \<longrightarrow>
      (case map_of WARP_MODES m of None \<Rightarrow> ''Unknown'' | Some x \<Rightarrow> x) = ''Unknown''"
    by (simp add: WARP_MODES_def)
  have flags: "warp_flag \<lparr>mode = x, markers = None\<rparr> = ''warped: '' @ x"
    "warp_flag \<lparr>mode = x, markers = Some k\<rparr> = ''warped: '' @ x @ '', '' @ show_nat k @ '' markers''"
    by (simp_all add: warp_flag_def)
  from unwarped cases unknown flags show ?thesis by blast
qed

theorem get_warp_info_cases_witness:
  "py_int (get_attr (audio_clip ''kick'' ''5'' 2) [Child ''WarpMode''] ''0'') = Some 5
   \<and> (5::int) \<notin> {0, 1, 2, 3, 4, 6}
   \<and> get_warp_info (audio_clip ''kick'' ''5'' 2) = Inr (Some \<lparr>mode = ''Unknown'', markers = None\<rparr>)
   \<and> py_int (get_attr (audio_clip ''kick'' ''6'' 3) [Child ''WarpMode''] ''0'') = Some 6
   \<and> get_warp_info (audio_clip ''kick'' ''6'' 3) = Inr (Some \<lparr>mode = ''Complex Pro'', markers = Some 3\<rparr>)
   \<and> get_attr unwarped_clip [Child ''IsWarped''] ''true'' = ''false''
   \<and> get_warp_info unwarped_clip = Inr None"
proof -
  have u: "get_attr unwarped_clip [Child ''IsWarped''] ''true'' = ''false''"
    by (simp add: unwarped_clip_def tree_defs)
  have c: "get_warp_info unwarped_clip = Inr None"
    using get_warp_info_cases [of unwarped_clip] u by simp
  have m5: "py_int (get_attr (audio_clip ''kick'' ''5'' 2) [Child ''WarpMode''] ''0'') = Some 5"
    by (simp add: audio_clip_def tree_defs flt_defs)
  have m6: "py_int (get_attr (audio_clip ''kick'' ''6'' 3) [Child ''WarpMode''] ''0'') = Some 6"
    by (simp add: audio_clip_def tree_defs flt_defs)
  have r3: "replicate 3 e = [e, e, e]" for e :: xml
    by (simp add: numeral_3_eq_3)
  have r2: "replicate 2 e = [e, e]" for e :: xml
    by (simp add: numeral_2_eq_2)
  have a: "get_warp_info (audio_clip ''kick'' ''5'' 2) = Inr (Some \<lparr>mode = ''Unknown'', markers = None\<rparr>)"
    using get_warp_info_cases [of "audio_clip ''kick'' ''5'' 2" 5] m5
    by (simp add: audio_clip_def warp_markers_def tree_defs WARP_MODES_def r2)
  have b: "get_warp_info (audio_clip ''kick'' ''6'' 3) = Inr (Some \<lparr>mode = ''Complex Pro'', markers = Some 3\<rparr>)"
    using get_warp_info_cases [of "audio_clip ''kick'' ''6'' 3" 6] m6
    by (simp add: audio_clip_def warp_markers_def tree_defs WARP_MODES_def r3)
  from m5 m6 a b u c show ?thesis by simp
qed

subsection \<open>Session clips\<close>

lemma map_exn_length: "map_exn f xs = Inr ys \<Longrightarrow> length ys = length xs"
  by (induction xs arbitrary: ys) (auto split: sum.splits)

lemma parse_midi_slot_clip: "parse_session_clip lg (midi_slot_clip nm) = Inr (slot_info nm)"
  by (simp add: midi_slot_clip_def slot_info_def clip_defs tree_defs flt_defs)

lemma parse_plain_track:
  "parse_track lg (track_with_slots kind nm []) False = Inr (plain_info (replace kind ''Track'' []) nm [])"
proof -
  let ?t = "track_with_slots kind nm []"
  have sess: "map_exn (parse_session_clip lg) (session_elems ?t) = Inr []"
    by (simp add: track_with_slots_def session_elems_def tree_defs)
  have arr: "map_exn (parse_clip lg) (arrangement_elems ?t) = Inr []"
    by (simp add: track_with_slots_def arrangement_elems_def tree_defs)
  have kind: "tag ?t = kind"
    by (simp add: track_with_slots_def)
  have nm: "get_attr ?t [Child ''Name'', Child ''EffectiveName''] ''Untitled'' = nm"
    by (simp add: track_with_slots_def tree_defs)
  have col: "get_attr ?t [Child ''Color''] ''69'' = ''69''"
    by (simp add: track_with_slots_def tree_defs)
  have devs: "parse_devices ?t False = []"
    by (simp add: track_with_slots_def parse_devices_def tree_defs)
  have mx: "parse_track_mixer lg ?t = None"
    by (simp add: track_with_slots_def parse_track_mixer_def tree_defs)
  have rt: "parse_track_routing ?t = no_routing"
    by (simp add: track_with_slots_def parse_track_routing_def route_def no_routing_def tree_defs)
  have st: "parse_track_state ?t = no_state"
    by (simp add: track_with_slots_def parse_track_state_def no_state_def tree_defs flt_defs)
  show ?thesis
    unfolding parse_track_def sess arr kind nm col devs mx rt st
    by (simp add: plain_info_def COLORS_def sort_clips_def)
qed

lemma resolve_plain: "resolve_group gm (plain_info k n s) = plain_info k n s"
  by (simp add: resolve_group_def plain_info_def no_state_def)

lemma five_slot_track_parsed:
  "parse_track lg five_slot_track False
     = Inr (plain_info ''Midi'' ''Keys'' [slot_info ''a'', slot_info ''b'', slot_info ''c'', slot_info ''d'', slot_info ''e''])"
proof -
  have elems: "session_elems five_slot_track =
      [midi_slot_clip ''a'', midi_slot_clip ''b'', midi_slot_clip ''c'', midi_slot_clip ''d'', midi_slot_clip ''e'']"
    by (simp add: five_slot_track_def track_with_slots_def clip_slot_def midi_slot_clip_def
        session_elems_def tree_defs)
  have none: "arrangement_elems five_slot_track = []"
    by (simp add: five_slot_track_def track_with_slots_def clip_slot_def midi_slot_clip_def
        arrangement_elems_def tree_defs)
  have sess: "map_exn (parse_session_clip lg) (session_elems five_slot_track) =
      Inr [slot_info ''a'', slot_info ''b'', slot_info ''c'', slot_info ''d'', slot_info ''e'']"
    unfolding elems by (simp add: parse_midi_slot_clip)
  have arr: "map_exn (parse_clip lg) (arrangement_elems five_slot_track) = Inr []"
    unfolding none by simp
  have kind: "replace (tag five_slot_track) ''Track'' [] = ''Midi''"
    by (simp add: five_slot_track_def track_with_slots_def)
  have nm: "get_attr five_slot_track [Child ''Name'', Child ''EffectiveName''] ''Untitled'' = ''Keys''"
    by (simp add: five_slot_track_def track_with_slots_def tree_defs)
  have col: "get_attr five_slot_track [Child ''Color''] ''69'' = ''69''"
    by (simp add: five_slot_track_def track_with_slots_def tree_defs)
  have devs: "parse_devices five_slot_track False = []"
    by (simp add: five_slot_track_def track_with_slots_def clip_slot_def midi_slot_clip_def
        parse_devices_def tree_defs)
  have mx: "parse_track_mixer lg five_slot_track = None"
    by (simp add: five_slot_track_def track_with_slots_def clip_slot_def midi_slot_clip_def
        parse_track_mixer_def tree_defs)
  have rt: "parse_track_routing five_slot_track = no_routing"
    by (simp add: five_slot_track_def track_with_slots_def clip_slot_def midi_slot_clip_def
        parse_track_routing_def route_def no_routing_def tree_defs)
  have st: "parse_track_state five_slot_track = no_state"
    by (simp add: five_slot_track_def track_with_slots_def clip_slot_def midi_slot_clip_def
        parse_track_state_def no_state_def tree_defs flt_defs)
  show ?thesis
    unfolding parse_track_def sess arr kind nm col devs mx rt st
    by (simp add: plain_info_def COLORS_def sort_clips_def)
qed

lemma concat_map_nth:
  "k < length xs \<Longrightarrow>
   concat (map f xs) = concat (map f (take k xs)) @ f (xs ! k) @ concat (map f (drop (Suc k) xs))"
proof -
  assume k: "k < length xs"
  have "concat (map f xs) = concat (map f (take k xs @ xs ! k # drop (Suc k) xs))"
    using id_take_nth_drop [OF k] by simp
  then show ?thesis
    by simp
qed

lemma section_has_track:
  assumes "k < length ts"
  shows "\<exists>pre post. section_lines label ts = pre @ track_lines (k + 1) (ts ! k) @ post"
proof -
  let ?row = "\<lambda>(i, t). track_lines (i + 1) t"
  let ?rows = "zip [0 ..< length ts] ts"
  have k: "k < length ?rows"
    using assms by simp
  have at: "?row (?rows ! k) = track_lines (k + 1) (ts ! k)"
    using assms by simp
  have nonempty: "ts \<noteq> []"
    using assms by auto
  have "section_lines label ts =
      ([replicate 40 (CHR ''-''), label @ '' TRACKS ('' @ show_nat (length ts) @ ''):'']
       @ concat (map ?row (take k ?rows)))
      @ track_lines (k + 1) (ts ! k)
      @ (concat (map ?row (drop (Suc k) ?rows)) @ [[]])"
    unfolding section_lines_def concat_map_nth [of k ?rows ?row, OF k] at
    using nonempty by simp
  then show ?thesis
    by blast
qed

lemma project_has_track:
  assumes k: "k < length ts"
    and ts: "ts \<in> {audio (proj_tracks p), midi (proj_tracks p), returns (proj_tracks p), groups (proj_tracks p)}"
  shows "\<exists>pre post. project_lines p = pre @ track_lines (k + 1) (ts ! k) @ post"
proof -
  have step: "\<exists>pre post. a @ s @ b = pre @ x @ post" if "\<exists>pre post. s = pre @ x @ post"
    for a s b x :: "string list"
  proof -
    from that obtain pre post where "s = pre @ x @ post"
      by blast
    then have "a @ s @ b = (a @ pre) @ x @ (post @ b)"
      by simp
    then show ?thesis
      by blast
  qed
  let ?h = "header_lines p @ marker_lines (locators p)"
  let ?a = "section_lines ''AUDIO'' (audio (proj_tracks p))"
  let ?m = "section_lines ''MIDI'' (midi (proj_tracks p))"
  let ?r = "section_lines ''RETURN'' (returns (proj_tracks p))"
  let ?g = "section_lines ''GROUP'' (groups (proj_tracks p))"
  let ?t = "master_lines (master p) @ scene_lines (scenes p) @ [replicate 60 (CHR ''='')]"
  have lines: "project_lines p = ?h @ ?a @ (?m @ ?r @ ?g @ ?t)"
    "project_lines p = (?h @ ?a) @ ?m @ (?r @ ?g @ ?t)"
    "project_lines p = (?h @ ?a @ ?m) @ ?r @ (?g @ ?t)"
    "project_lines p = (?h @ ?a @ ?m @ ?r) @ ?g @ ?t"
    by (simp_all add: project_lines_def)
  from ts consider "ts = audio (proj_tracks p)" | "ts = midi (proj_tracks p)"
    | "ts = returns (proj_tracks p)" | "ts = groups (proj_tracks p)"
    by blast
  then show ?thesis
  proof cases
    case 1
    show ?thesis
      unfolding lines(1) using section_has_track [OF k, of "''AUDIO''"] unfolding 1 by (rule step)
  next
    case 2
    show ?thesis
      unfolding lines(2) using section_has_track [OF k, of "''MIDI''"] unfolding 2 by (rule step)
  next
    case 3
    show ?thesis
      unfolding lines(3) using section_has_track [OF k, of "''RETURN''"] unfolding 3 by (rule step)
  next
    case 4
    show ?thesis
      unfolding lines(4) using section_has_track [OF k, of "''GROUP''"] unfolding 4 by (rule step)
  qed
qed

text \<open>
  Claim C7. The text that \<^verbatim>\<open>format_output\<close> returns for a project is its lines joined by
  line feeds, and the lines of every track of the four track lists are among them, the
  track numbered from 1 within its list. The lines of a track are the lines of the same
  track without session clips, followed by the session lines: a count line, then a clip
  line for each of the first three session clips and no other, then the line
  \<^verbatim>\<open>... and N more in slots\<close> with \<open>N\<close> the number of clips minus three exactly when
  there are more than three; five clips give three clip lines and
  \<^verbatim>\<open>... and 2 more in slots\<close>. The lines of the master track do not depend on its session
  clips. The track that \<^verbatim>\<open>parse_track\<close> returns holds every session clip of the document.
\<close>

theorem session_clips_truncated:
  "session_lines cs =
     (if cs = [] then []
      else (''      Session Slots ('' @ show_nat (length cs) @ ''):'')
           # map (\<lambda>c. ''        - '' @ format_clip c True) (take 3 cs)
           @ (if 3 < length cs
              then [''        ... and '' @ show_nat (length cs - 3) @ '' more in slots''] else []))
   \<and> length (map (\<lambda>c. ''        - '' @ format_clip c True) (take 3 cs)) = min 3 (length cs)
   \<and> (length cs = 5 \<longrightarrow>
        session_lines cs =
          [''      Session Slots (5):'',
           ''        - '' @ format_clip (cs ! 0) True,
           ''        - '' @ format_clip (cs ! 1) True,
           ''        - '' @ format_clip (cs ! 2) True,
           ''        ... and 2 more in slots''])
   \<and> track_lines i t = track_lines i (t\<lparr>session_clips := []\<rparr>) @ session_lines (session_clips t)
   \<and> (k < length ts
        \<and> ts \<in> {audio (proj_tracks p), midi (proj_tracks p), returns (proj_tracks p), groups (proj_tracks p)}
        \<longrightarrow> (\<exists>pre post. project_lines p = pre @ track_lines (k + 1) (ts ! k) @ post))
   \<and> format_output (Project p) = join [CHR 0x0A] (project_lines p)
   \<and> master_lines (Some (m\<lparr>session_clips := cs\<rparr>)) = master_lines (Some m)
   \<and> (parse_track lg track is_master = Inr info \<longrightarrow>
        map_exn (parse_session_clip lg) (session_elems track) = Inr (session_clips info)
        \<and> length (session_clips info) = length (session_elems track))"
proof -
  have general: "session_lines cs =
     (if cs = [] then []
      else (''      Session Slots ('' @ show_nat (length cs) @ ''):'')
           # map (\<lambda>c. ''        - '' @ format_clip c True) (take 3 cs)
           @ (if 3 < length cs
              then [''        ... and '' @ show_nat (length cs - 3) @ '' more in slots''] else []))"
    by (simp add: session_lines_def)
  have count: "length (map (\<lambda>c. ''        - '' @ format_clip c True) (take 3 cs)) = min 3 (length cs)"
    by simp
  have five: "length cs = 5 \<longrightarrow>
        session_lines cs =
          [''      Session Slots (5):'',
           ''        - '' @ format_clip (cs ! 0) True,
           ''        - '' @ format_clip (cs ! 1) True,
           ''        - '' @ format_clip (cs ! 2) True,
           ''        ... and 2 more in slots'']"
  proof
    assume len: "length cs = 5"
    then obtain a b c d e where cs: "cs = [a, b, c, d, e]"
      by (auto simp: length_Suc_conv numeral_eq_Suc)
    have three: "take 3 [a, b, c, d, e] = [a, b, c]"
      by (simp add: numeral_3_eq_3)
    show "session_lines cs =
          [''      Session Slots (5):'',
           ''        - '' @ format_clip (cs ! 0) True,
           ''        - '' @ format_clip (cs ! 1) True,
           ''        - '' @ format_clip (cs ! 2) True,
           ''        ... and 2 more in slots'']"
      unfolding cs by (simp add: session_lines_def three show_nat.simps digit_char_def)
  qed
  have tail: "track_lines i t = track_lines i (t\<lparr>session_clips := []\<rparr>) @ session_lines (session_clips t)"
    by (simp add: track_lines_def track_header_def session_lines_def)
  have placed: "k < length ts
        \<and> ts \<in> {audio (proj_tracks p), midi (proj_tracks p), returns (proj_tracks p), groups (proj_tracks p)}
        \<longrightarrow> (\<exists>pre post. project_lines p = pre @ track_lines (k + 1) (ts ! k) @ post)"
    using project_has_track [of k ts p] by blast
  have joined: "format_output (Project p) = join [CHR 0x0A] (project_lines p)"
    by (simp add: format_output_def)
  have master_part: "master_lines (Some (m\<lparr>session_clips := cs\<rparr>)) = master_lines (Some m)"
    by (simp add: master_lines_def)
  have kept: "parse_track lg track is_master = Inr info \<longrightarrow>
        map_exn (parse_session_clip lg) (session_elems track) = Inr (session_clips info)
        \<and> length (session_clips info) = length (session_elems track)"
  proof
    assume p: "parse_track lg track is_master = Inr info"
    then have m: "map_exn (parse_session_clip lg) (session_elems track) = Inr (session_clips info)"
      by (auto simp: parse_track_def split: sum.splits)
    with map_exn_length [OF m]
    show "map_exn (parse_session_clip lg) (session_elems track) = Inr (session_clips info)
        \<and> length (session_clips info) = length (session_elems track)"
      by simp
  qed
  from general count five tail placed joined master_part kept show ?thesis
    by (intro conjI)
qed

theorem session_clips_truncated_witness:
  "parse_root sample_log10 slots_doc = Inr slots_project
   \<and> length (session_elems five_slot_track) = 5
   \<and> map (\<lambda>t. length (session_clips t)) (midi (proj_tracks slots_project)) = [5]
   \<and> (\<exists>pre post. project_lines slots_project
         = pre @ track_lines 1 (midi (proj_tracks slots_project) ! 0) @ post)
   \<and> format_output (Project slots_project) =
       join [CHR 0x0A]
         [replicate 60 (CHR ''=''),
          ''ABLETON PROJECT SUMMARY'',
          replicate 60 (CHR ''=''),
          ''Creator: Ableton Live 11.0'',
          ''Tempo: 120 BPM'',
          ''Time Signature: 4/4'',
          [],
          replicate 40 (CHR ''-''),
          ''MIDI TRACKS (1):'',
          ''  [1] Keys (Default)'',
          ''      Session Slots (5):'',
          ''        - \"a\" @ 1.1.0 - 2.1.0'',
          ''        - \"b\" @ 1.1.0 - 2.1.0'',
          ''        - \"c\" @ 1.1.0 - 2.1.0'',
          ''        ... and 2 more in slots'',
          [],
          replicate 60 (CHR ''='')]"
proof -
  let ?cs = "[slot_info ''a'', slot_info ''b'', slot_info ''c'', slot_info ''d'', slot_info ''e'']"
  let ?keys = "plain_info ''Midi'' ''Keys'' ?cs"
  note claim = session_clips_truncated [where cs = ?cs and i = 1 and t = ?keys and k = 0
      and ts = "midi (proj_tracks slots_project)" and p = slots_project and lg = sample_log10
      and track = five_slot_track and is_master = False and info = ?keys and m = ?keys]
  note five = claim [THEN conjunct2, THEN conjunct2, THEN conjunct1]
    and tail = claim [THEN conjunct2, THEN conjunct2, THEN conjunct2, THEN conjunct1]
    and placed_at = claim [THEN conjunct2, THEN conjunct2, THEN conjunct2, THEN conjunct2, THEN conjunct1]
    and joined = claim [THEN conjunct2, THEN conjunct2, THEN conjunct2, THEN conjunct2, THEN conjunct2, THEN conjunct1]
    and kept = claim [THEN conjunct2, THEN conjunct2, THEN conjunct2, THEN conjunct2, THEN conjunct2, THEN conjunct2, THEN conjunct2]
  have kids: "find_first slots_doc [Desc ''Tracks''] = Some (Elem ''Tracks'' [] [five_slot_track])"
    by (simp add: slots_doc_def five_slot_track_def track_with_slots_def clip_slot_def midi_slot_clip_def
        tree_defs)
  have kind: "tag five_slot_track = ''MidiTrack''"
    by (simp add: five_slot_track_def track_with_slots_def)
  have loop: "tracks_loop sample_log10 gm [five_slot_track] no_tracks
      = Inr \<lparr>audio = [], midi = [?keys], returns = [], groups = []\<rparr>" for gm
    by (simp add: five_slot_track_parsed resolve_plain assign_def kind no_tracks_def)
  have ms: "parse_master_track sample_log10 slots_doc = Inr None"
    by (simp add: parse_master_track_def slots_doc_def five_slot_track_def track_with_slots_def clip_slot_def
        midi_slot_clip_def tree_defs)
  have cr: "get slots_doc ''Creator'' ''Unknown'' = ''Ableton Live 11.0''"
    by (simp add: slots_doc_def tree_defs)
  have tp: "get_attr slots_doc [Desc ''Tempo'', Child ''Manual''] ''120'' = ''120''"
    by (simp add: slots_doc_def five_slot_track_def track_with_slots_def clip_slot_def midi_slot_clip_def
        tree_defs)
  have num: "get_attr slots_doc [Desc ''TimeSignature'', Child ''Manual'', Child ''Numerator''] ''4'' = ''4''"
    by (simp add: slots_doc_def five_slot_track_def track_with_slots_def clip_slot_def midi_slot_clip_def
        tree_defs)
  have den: "get_attr slots_doc [Desc ''TimeSignature'', Child ''Manual'', Child ''Denominator''] ''4'' = ''4''"
    by (simp add: slots_doc_def five_slot_track_def track_with_slots_def clip_slot_def midi_slot_clip_def
        tree_defs)
  have lc: "parse_locators slots_doc = []"
    by (simp add: parse_locators_def slots_doc_def five_slot_track_def track_with_slots_def clip_slot_def
        midi_slot_clip_def tree_defs)
  have sc: "parse_scenes slots_doc = []"
    by (simp add: parse_scenes_def slots_doc_def five_slot_track_def track_with_slots_def clip_slot_def
        midi_slot_clip_def tree_defs)
  have au: "is_tempo_automated slots_doc = False"
    by (simp add: is_tempo_automated_def slots_doc_def five_slot_track_def track_with_slots_def clip_slot_def
        midi_slot_clip_def tree_defs)
  have pi: "parse_project_info slots_doc = \<lparr>key = None, loop = None\<rparr>"
    by (simp add: parse_project_info_def slots_doc_def five_slot_track_def track_with_slots_def clip_slot_def
        midi_slot_clip_def tree_defs)
  have parsed: "parse_root sample_log10 slots_doc = Inr slots_project"
    unfolding parse_root_def kids option.case xml.sel loop ms cr tp num den lc sc au pi
    by (simp add: slots_project_def)
  have "length (session_clips ?keys) = length (session_elems five_slot_track)"
    using kept five_slot_track_parsed by blast
  then have n: "length (session_elems five_slot_track) = 5"
    by (simp add: plain_info_def)
  have held: "map (\<lambda>t. length (session_clips t)) (midi (proj_tracks slots_project)) = [5]"
    by (simp add: slots_project_def plain_info_def)
  have "0 < length (midi (proj_tracks slots_project))"
    by (simp add: slots_project_def)
  then have placed: "\<exists>pre post. project_lines slots_project
         = pre @ track_lines 1 (midi (proj_tracks slots_project) ! 0) @ post"
    using placed_at by simp
  have sess: "session_lines ?cs =
          [''      Session Slots (5):'',
           ''        - '' @ format_clip (?cs ! 0) True,
           ''        - '' @ format_clip (?cs ! 1) True,
           ''        - '' @ format_clip (?cs ! 2) True,
           ''        ... and 2 more in slots'']"
    using five by simp
  have clip_line: "format_clip (slot_info nm) True = [CHR 0x22] @ nm @ [CHR 0x22] @ '' @ 1.1.0 - 2.1.0''" for nm
    by (simp add: slot_info_def format_clip_def bracketed_def truthy_def)
  have keys_lines: "track_lines 1 ?keys =
      [''  [1] Keys (Default)'',
       ''      Session Slots (5):'',
       ''        - \"a\" @ 1.1.0 - 2.1.0'',
       ''        - \"b\" @ 1.1.0 - 2.1.0'',
       ''        - \"c\" @ 1.1.0 - 2.1.0'',
       ''        ... and 2 more in slots'']"
    unfolding tail
    by (simp add: sess clip_line track_lines_def track_header_def plain_info_def no_state_def no_routing_def
        routing_str_def format_mixer_info_def bracketed_def truthy_def arrangement_lines_def
        session_lines_def show_nat.simps digit_char_def)
  have "project_lines slots_project =
         [replicate 60 (CHR ''=''),
          ''ABLETON PROJECT SUMMARY'',
          replicate 60 (CHR ''=''),
          ''Creator: Ableton Live 11.0'',
          ''Tempo: 120 BPM'',
          ''Time Signature: 4/4'',
          [],
          replicate 40 (CHR ''-''),
          ''MIDI TRACKS (1):''] @ track_lines 1 ?keys @ [[], replicate 60 (CHR ''='')]"
    by (simp add: project_lines_def slots_project_def header_lines_def marker_lines_def section_lines_def
        master_lines_def scene_lines_def truthy_def show_nat.simps digit_char_def)
  then have "format_output (Project slots_project) =
       join [CHR 0x0A]
         ([replicate 60 (CHR ''=''),
          ''ABLETON PROJECT SUMMARY'',
          replicate 60 (CHR ''=''),
          ''Creator: Ableton Live 11.0'',
          ''Tempo: 120 BPM'',
          ''Time Signature: 4/4'',
          [],
          replicate 40 (CHR ''-''),
          ''MIDI TRACKS (1):''] @ track_lines 1 ?keys @ [[], replicate 60 (CHR ''='')])"
    unfolding joined by simp
  then have rendered: "format_output (Project slots_project) =
       join [CHR 0x0A]
         [replicate 60 (CHR ''=''),
          ''ABLETON PROJECT SUMMARY'',
          replicate 60 (CHR ''=''),
          ''Creator: Ableton Live 11.0'',
          ''Tempo: 120 BPM'',
          ''Time Signature: 4/4'',
          [],
          replicate 40 (CHR ''-''),
          ''MIDI TRACKS (1):'',
          ''  [1] Keys (Default)'',
          ''      Session Slots (5):'',
          ''        - \"a\" @ 1.1.0 - 2.1.0'',
          ''        - \"b\" @ 1.1.0 - 2.1.0'',
          ''        - \"c\" @ 1.1.0 - 2.1.0'',
          ''        ... and 2 more in slots'',
          [],
          replicate 60 (CHR ''='')]"
    unfolding keys_lines by simp
  from parsed n held placed rendered show ?thesis
    by (intro conjI)
qed

subsection \<open>The track lists\<close>

lemma filter_zip_length:
  "length ys = length xs \<Longrightarrow> length (filter (\<lambda>(x, y). P x) (zip xs ys)) = length (filter P xs)"
  by (induction xs ys rule: list_induct2') auto

lemma tracks_loop_lists:
  "tracks_loop lg gm ts trk0 = Inr trk \<Longrightarrow>
   \<exists>infos. map_exn (\<lambda>t. parse_track lg t False) ts = Inr infos
     \<and> audio trk = audio trk0 @ tracks_of_kind ''AudioTrack'' gm ts infos
     \<and> midi trk = midi trk0 @ tracks_of_kind ''MidiTrack'' gm ts infos
     \<and> returns trk = returns trk0 @ tracks_of_kind ''ReturnTrack'' gm ts infos
     \<and> groups trk = groups trk0 @ tracks_of_kind ''GroupTrack'' gm ts infos"
proof (induction ts arbitrary: trk0)
  case Nil
  then show ?case by (simp add: tracks_of_kind_def)
next
  case (Cons t ts)
  from Cons.prems obtain info where info: "parse_track lg t False = Inr info"
    and rest: "tracks_loop lg gm ts (assign (tag t) (resolve_group gm info) trk0) = Inr trk"
    by (auto split: sum.splits)
  from Cons.IH [OF rest] obtain infos where
    m: "map_exn (\<lambda>t. parse_track lg t False) ts = Inr infos"
    and a: "audio trk = audio (assign (tag t) (resolve_group gm info) trk0) @ tracks_of_kind ''AudioTrack'' gm ts infos"
    and b: "midi trk = midi (assign (tag t) (resolve_group gm info) trk0) @ tracks_of_kind ''MidiTrack'' gm ts infos"
    and c: "returns trk = returns (assign (tag t) (resolve_group gm info) trk0) @ tracks_of_kind ''ReturnTrack'' gm ts infos"
    and d: "groups trk = groups (assign (tag t) (resolve_group gm info) trk0) @ tracks_of_kind ''GroupTrack'' gm ts infos"
    by blast
  have m': "map_exn (\<lambda>t. parse_track lg t False) (t # ts) = Inr (info # infos)"
    by (simp add: info m)
  have "audio trk = audio trk0 @ tracks_of_kind ''AudioTrack'' gm (t # ts) (info # infos)"
    "midi trk = midi trk0 @ tracks_of_kind ''MidiTrack'' gm (t # ts) (info # infos)"
    "returns trk = returns trk0 @ tracks_of_kind ''ReturnTrack'' gm (t # ts) (info # infos)"
    "groups trk = groups trk0 @ tracks_of_kind ''GroupTrack'' gm (t # ts) (info # infos)"
    by (simp_all add: a b c d assign_def tracks_of_kind_def)
  with m' show ?case by blast
qed

lemma four_kinds_count:
  "length (filter (\<lambda>t. tag t = ''AudioTrack'') ts) + length (filter (\<lambda>t. tag t = ''MidiTrack'') ts)
   + length (filter (\<lambda>t. tag t = ''ReturnTrack'') ts) + length (filter (\<lambda>t. tag t = ''GroupTrack'') ts)
   = length (filter (\<lambda>t. tag t \<in> set [''AudioTrack'', ''MidiTrack'', ''ReturnTrack'', ''GroupTrack'']) ts)"
  by (induction ts) auto

lemma tag_track_with_slots: "tag (track_with_slots kind nm clips) = kind"
  by (simp add: track_with_slots_def)

text \<open>
  The claim that no child of the \<^verbatim>\<open>Tracks\<close> element is dropped fails: a child with
  another tag is parsed and put in no list.
\<close>

theorem tracks_exhaustive_counterexample:
  "find_first stray_doc [Desc ''Tracks''] = Some (Elem ''Tracks'' [] [track_with_slots ''OtherTrack'' ''Stray'' []])
   \<and> map_sum id proj_tracks (parse_root sample_log10 stray_doc)
       = Inr \<lparr>audio = [], midi = [], returns = [], groups = []\<rparr>"
proof -
  have te: "find_first stray_doc [Desc ''Tracks'']
      = Some (Elem ''Tracks'' [] [track_with_slots ''OtherTrack'' ''Stray'' []])"
    by (simp add: stray_doc_def track_with_slots_def tree_defs)
  have loop: "tracks_loop sample_log10 gm [track_with_slots ''OtherTrack'' ''Stray'' []] no_tracks = Inr no_tracks" for gm
    by (simp add: parse_plain_track assign_def tag_track_with_slots)
  have ms: "parse_master_track sample_log10 stray_doc = Inr None"
    by (simp add: parse_master_track_def stray_doc_def track_with_slots_def tree_defs)
  have "map_sum id proj_tracks (parse_root sample_log10 stray_doc) = Inr no_tracks"
    unfolding parse_root_def te option.case xml.sel loop ms by simp
  with te show ?thesis
    by (simp add: no_tracks_def)
qed

text \<open>
  Claim C9, amended. When the loop over the children of the \<^verbatim>\<open>Tracks\<close> element ends
  without an exception, each of the four lists holds exactly the parsed children with its
  tag (\<^verbatim>\<open>AudioTrack\<close>, \<^verbatim>\<open>MidiTrack\<close>, \<^verbatim>\<open>ReturnTrack\<close>, \<^verbatim>\<open>GroupTrack\<close>), in document
  order; the tags differ, so no child is in two lists, and the lists together hold as
  many entries as there are children with one of the four tags. This loop gives the
  track lists of the project that \<^verbatim>\<open>parse_als\<close> returns.
\<close>

theorem tracks_partition_known_kinds:
  "(tracks_loop lg gm ts no_tracks = Inr trk \<longrightarrow>
      (\<exists>infos. map_exn (\<lambda>t. parse_track lg t False) ts = Inr infos
         \<and> audio trk = tracks_of_kind ''AudioTrack'' gm ts infos
         \<and> midi trk = tracks_of_kind ''MidiTrack'' gm ts infos
         \<and> returns trk = tracks_of_kind ''ReturnTrack'' gm ts infos
         \<and> groups trk = tracks_of_kind ''GroupTrack'' gm ts infos)
      \<and> length (audio trk) + length (midi trk) + length (returns trk) + length (groups trk)
          = length (filter (\<lambda>t. tag t \<in> set [''AudioTrack'', ''MidiTrack'', ''ReturnTrack'', ''GroupTrack'']) ts))
   \<and> (parse_root lg r = Inr p \<longrightarrow>
        tracks_loop lg (build_group_map r)
          (case find_first r [Desc ''Tracks''] of None \<Rightarrow> [] | Some tracks_elem \<Rightarrow> children tracks_elem)
          no_tracks = Inr (proj_tracks p))"
proof -
  have lists: "tracks_loop lg gm ts no_tracks = Inr trk \<longrightarrow>
      (\<exists>infos. map_exn (\<lambda>t. parse_track lg t False) ts = Inr infos
         \<and> audio trk = tracks_of_kind ''AudioTrack'' gm ts infos
         \<and> midi trk = tracks_of_kind ''MidiTrack'' gm ts infos
         \<and> returns trk = tracks_of_kind ''ReturnTrack'' gm ts infos
         \<and> groups trk = tracks_of_kind ''GroupTrack'' gm ts infos)
      \<and> length (audio trk) + length (midi trk) + length (returns trk) + length (groups trk)
          = length (filter (\<lambda>t. tag t \<in> set [''AudioTrack'', ''MidiTrack'', ''ReturnTrack'', ''GroupTrack'']) ts)"
  proof
    assume loop: "tracks_loop lg gm ts no_tracks = Inr trk"
    from tracks_loop_lists [OF loop] obtain infos where
      m: "map_exn (\<lambda>t. parse_track lg t False) ts = Inr infos"
      and a: "audio trk = tracks_of_kind ''AudioTrack'' gm ts infos"
      and b: "midi trk = tracks_of_kind ''MidiTrack'' gm ts infos"
      and c: "returns trk = tracks_of_kind ''ReturnTrack'' gm ts infos"
      and d: "groups trk = tracks_of_kind ''GroupTrack'' gm ts infos"
      by (auto simp: no_tracks_def)
    have len: "length infos = length ts"
      by (rule map_exn_length [OF m])
    have n: "length (tracks_of_kind k gm ts infos) = length (filter (\<lambda>t. tag t = k) ts)" for k
      by (simp add: tracks_of_kind_def filter_zip_length [OF len])
    have "length (audio trk) + length (midi trk) + length (returns trk) + length (groups trk)
          = length (filter (\<lambda>t. tag t \<in> set [''AudioTrack'', ''MidiTrack'', ''ReturnTrack'', ''GroupTrack'']) ts)"
      unfolding a b c d n by (rule four_kinds_count)
    with m a b c d show "(\<exists>infos. map_exn (\<lambda>t. parse_track lg t False) ts = Inr infos
         \<and> audio trk = tracks_of_kind ''AudioTrack'' gm ts infos
         \<and> midi trk = tracks_of_kind ''MidiTrack'' gm ts infos
         \<and> returns trk = tracks_of_kind ''ReturnTrack'' gm ts infos
         \<and> groups trk = tracks_of_kind ''GroupTrack'' gm ts infos)
      \<and> length (audio trk) + length (midi trk) + length (returns trk) + length (groups trk)
          = length (filter (\<lambda>t. tag t \<in> set [''AudioTrack'', ''MidiTrack'', ''ReturnTrack'', ''GroupTrack'']) ts)"
      by blast
  qed
  have root_part: "parse_root lg r = Inr p \<longrightarrow>
        tracks_loop lg (build_group_map r)
          (case find_first r [Desc ''Tracks''] of None \<Rightarrow> [] | Some tracks_elem \<Rightarrow> children tracks_elem)
          no_tracks = Inr (proj_tracks p)"
    by (auto simp: parse_root_def split: sum.splits)
  from lists root_part show ?thesis by blast
qed

theorem tracks_partition_known_kinds_witness:
  "tracks_loop sample_log10 [] four_tracks no_tracks
     = Inr \<lparr>audio = [plain_info ''Audio'' ''Drums'' [], plain_info ''Audio'' ''Bass'' []],
            midi = [plain_info ''Midi'' ''Keys'' []], returns = [], groups = []\<rparr>
   \<and> length (filter (\<lambda>t. tag t \<in> set [''AudioTrack'', ''MidiTrack'', ''ReturnTrack'', ''GroupTrack'']) four_tracks) = 3
   \<and> length four_tracks = 4"
proof -
  let ?trk = "\<lparr>audio = [plain_info ''Audio'' ''Drums'' [], plain_info ''Audio'' ''Bass'' []],
            midi = [plain_info ''Midi'' ''Keys'' []], returns = [], groups = []\<rparr>"
  have loop: "tracks_loop sample_log10 [] four_tracks no_tracks = Inr ?trk"
    by (simp add: four_tracks_def parse_plain_track resolve_plain assign_def tag_track_with_slots no_tracks_def)
  have "length (audio ?trk) + length (midi ?trk) + length (returns ?trk) + length (groups ?trk)
      = length (filter (\<lambda>t. tag t \<in> set [''AudioTrack'', ''MidiTrack'', ''ReturnTrack'', ''GroupTrack'']) four_tracks)"
    using tracks_partition_known_kinds [of sample_log10 "[]" four_tracks ?trk] loop by blast
  then have three: "length (filter (\<lambda>t. tag t \<in> set [''AudioTrack'', ''MidiTrack'', ''ReturnTrack'', ''GroupTrack''])
      four_tracks) = 3"
    by simp
  have four: "length four_tracks = 4"
    by (simp add: four_tracks_def)
  from loop three four show ?thesis by simp
qed

subsection \<open>Failures\<close>

text \<open>
  Claim C1. A file that cannot be inflated or decoded gives the error result with the
  reason, rendered as the single line \<^verbatim>\<open>ERROR: <reason>\<close>. A file that inflates to text
  which is not well-formed XML gives no error result: the \<^verbatim>\<open>ParseError\<close> of
  \<^verbatim>\<open>ET.fromstring\<close> leaves \<^verbatim>\<open>parse_als\<close>, and nothing is rendered.
\<close>

theorem decode_failure_results:
  "(inflate file_bytes = Inl msg \<longrightarrow>
      parse_als lg inflate fromstring file_bytes = Inr (Error msg)
      \<and> textconv lg inflate fromstring file_bytes = Inr (''ERROR: '' @ msg))
   \<and> (inflate file_bytes = Inr xml_data \<and> fromstring xml_data = Inl msg \<longrightarrow>
      parse_als lg inflate fromstring file_bytes = Inl (ParseError msg)
      \<and> textconv lg inflate fromstring file_bytes = Inl (ParseError msg))"
  by (simp add: parse_als_def textconv_def format_output_def)

theorem decode_failure_results_witness:
  "sample_inflate ''plain text'' = Inl ''Not a gzipped file (b'pl')''
   \<and> textconv sample_log10 sample_inflate sample_fromstring ''plain text'' = Inr ''ERROR: Not a gzipped file (b'pl')''
   \<and> sample_inflate ''gzip of <Ableton>'' = Inr ''<Ableton>''
   \<and> sample_fromstring ''<Ableton>'' = Inl ''no element found: line 1, column 9''
   \<and> parse_als sample_log10 sample_inflate sample_fromstring ''gzip of <Ableton>''
       = Inl (ParseError ''no element found: line 1, column 9'')
   \<and> textconv sample_log10 sample_inflate sample_fromstring ''gzip of <Ableton>''
       = Inl (ParseError ''no element found: line 1, column 9'')"
proof -
  have a: "sample_inflate ''plain text'' = Inl ''Not a gzipped file (b'pl')''"
    by (simp add: sample_inflate_def)
  have b: "sample_inflate ''gzip of <Ableton>'' = Inr ''<Ableton>''"
    by (simp add: sample_inflate_def)
  have c: "sample_fromstring ''<Ableton>'' = Inl ''no element found: line 1, column 9''"
    by (simp add: sample_fromstring_def)
  have "textconv sample_log10 sample_inflate sample_fromstring ''plain text'' = Inr (''ERROR: '' @ ''Not a gzipped file (b'pl')'')"
    using decode_failure_results [of sample_inflate "''plain text''" "''Not a gzipped file (b'pl')''" sample_log10
        sample_fromstring]
      a by blast
  moreover have "parse_als sample_log10 sample_inflate sample_fromstring ''gzip of <Ableton>''
       = Inl (ParseError ''no element found: line 1, column 9'')
     \<and> textconv sample_log10 sample_inflate sample_fromstring ''gzip of <Ableton>''
       = Inl (ParseError ''no element found: line 1, column 9'')"
    using decode_failure_results [of sample_inflate "''gzip of <Ableton>''"
        "''no element found: line 1, column 9''" sample_log10 sample_fromstring "''<Ableton>''"] b c by blast
  ultimately show ?thesis
    using a b c by simp
qed

lemma map_exn_raises: "x \<in> set xs \<Longrightarrow> f x = Inl e \<Longrightarrow> \<exists>e'. map_exn f xs = Inl e'"
  by (induction xs) (auto split: sum.splits)

lemma tracks_loop_raises:
  "t \<in> set ts \<Longrightarrow> parse_track lg t False = Inl e \<Longrightarrow> \<exists>e'. tracks_loop lg gm ts trk = Inl e'"
  by (induction ts arbitrary: trk) (auto split: sum.splits)

text \<open>
  Claim C2. A \<^verbatim>\<open>WarpMode\<close> value that is no integer is not replaced by a default: on a
  warped audio clip the \<^verbatim>\<open>ValueError\<close> of \<^verbatim>\<open>int(warp_mode)\<close> leaves
  \<^verbatim>\<open>get_warp_info\<close> and \<^verbatim>\<open>parse_clip\<close>, then \<^verbatim>\<open>parse_track\<close> for the track that holds
  the clip, and then \<^verbatim>\<open>parse_als\<close> for the file that holds the track.
\<close>

theorem non_numeric_warp_mode_aborts:
  assumes audio: "tag clip = ''AudioClip''"
    and time: "py_float (get clip ''Time'' ''0'') \<noteq> None"
    and warped: "get_attr clip [Child ''IsWarped''] ''true'' = ''true''"
    and mode: "py_int (get_attr clip [Child ''WarpMode''] ''0'') = None"
  shows "get_warp_info clip = Inl (ValueError (get_attr clip [Child ''WarpMode''] ''0''))
    \<and> parse_clip lg clip = Inl (ValueError (get_attr clip [Child ''WarpMode''] ''0''))
    \<and> (clip \<in> set (arrangement_elems track) \<union> set (session_elems track) \<longrightarrow>
         (\<exists>e. parse_track lg track is_master = Inl e)
         \<and> (track \<in> set (case find_first r [Desc ''Tracks''] of None \<Rightarrow> [] | Some tracks_elem \<Rightarrow> children tracks_elem) \<longrightarrow>
              (\<exists>e. parse_root lg r = Inl e)
              \<and> (inflate file_bytes = Inr xml_data \<and> fromstring xml_data = Inr r \<longrightarrow>
                   (\<exists>e. textconv lg inflate fromstring file_bytes = Inl e))))"
proof -
  let ?e = "ValueError (get_attr clip [Child ''WarpMode''] ''0'')"
  have w: "get_warp_info clip = Inl ?e"
    using warped mode by (simp add: get_warp_info_def)
  have c: "parse_clip lg clip = Inl ?e"
    using audio time w by (auto simp: parse_clip_def)
  have s: "parse_session_clip lg clip = Inl ?e"
    using c by (simp add: parse_session_clip_def)
  have whole: "(\<exists>e. parse_track lg track is_master = Inl e)
         \<and> (track \<in> set (case find_first r [Desc ''Tracks''] of None \<Rightarrow> [] | Some tracks_elem \<Rightarrow> children tracks_elem) \<longrightarrow>
              (\<exists>e. parse_root lg r = Inl e)
              \<and> (inflate file_bytes = Inr xml_data \<and> fromstring xml_data = Inr r \<longrightarrow>
                   (\<exists>e. textconv lg inflate fromstring file_bytes = Inl e)))"
    if mem: "clip \<in> set (arrangement_elems track) \<union> set (session_elems track)"
  proof -
    have tr: "\<exists>e. parse_track lg track m = Inl e" for m
    proof (cases "clip \<in> set (arrangement_elems track)")
      case True
      from map_exn_raises [of clip "arrangement_elems track" "parse_clip lg", OF True c] obtain e' where "map_exn (parse_clip lg) (arrangement_elems track) = Inl e'" ..
      then show ?thesis by (simp add: parse_track_def)
    next
      case False
      with mem have "clip \<in> set (session_elems track)" by simp
      from map_exn_raises [of clip "session_elems track" "parse_session_clip lg", OF this s] obtain e' where "map_exn (parse_session_clip lg) (session_elems track) = Inl e'" ..
      then show ?thesis by (auto simp: parse_track_def split: sum.splits)
    qed
    have doc: "(\<exists>e. parse_root lg r = Inl e)
              \<and> (inflate file_bytes = Inr xml_data \<and> fromstring xml_data = Inr r \<longrightarrow>
                   (\<exists>e. textconv lg inflate fromstring file_bytes = Inl e))"
      if t: "track \<in> set (case find_first r [Desc ''Tracks''] of None \<Rightarrow> [] | Some tracks_elem \<Rightarrow> children tracks_elem)"
    proof -
      from tr [of False] obtain e where "parse_track lg track False = Inl e" ..
      from tracks_loop_raises [of track _ lg e "build_group_map r" no_tracks, OF t this]
      obtain e' where "tracks_loop lg (build_group_map r)
          (case find_first r [Desc ''Tracks''] of None \<Rightarrow> [] | Some tracks_elem \<Rightarrow> children tracks_elem)
          no_tracks = Inl e'" ..
      then have root_raises: "parse_root lg r = Inl e'"
        by (simp add: parse_root_def)
      then have "inflate file_bytes = Inr xml_data \<and> fromstring xml_data = Inr r \<longrightarrow>
                   textconv lg inflate fromstring file_bytes = Inl e'"
        by (simp add: textconv_def parse_als_def)
      with root_raises show ?thesis by blast
    qed
    from tr [of is_master] doc show ?thesis by blast
  qed
  from w c whole show ?thesis by blast
qed

theorem non_numeric_warp_mode_aborts_witness:
  "tag (audio_clip ''kick'' ''abc'' 3) = ''AudioClip''
   \<and> py_float (get (audio_clip ''kick'' ''abc'' 3) ''Time'' ''0'') = Some (Num False 0)
   \<and> get_attr (audio_clip ''kick'' ''abc'' 3) [Child ''IsWarped''] ''true'' = ''true''
   \<and> get_attr (audio_clip ''kick'' ''abc'' 3) [Child ''WarpMode''] ''0'' = ''abc''
   \<and> py_int ''abc'' = None
   \<and> parse_clip sample_log10 (audio_clip ''kick'' ''abc'' 3) = Inl (ValueError ''abc'')
   \<and> session_elems (track_with_slots ''AudioTrack'' ''Drums'' [audio_clip ''kick'' ''abc'' 3])
       = [audio_clip ''kick'' ''abc'' 3]
   \<and> find_first warp_doc [Desc ''Tracks'']
       = Some (Elem ''Tracks'' [] [track_with_slots ''AudioTrack'' ''Drums'' [audio_clip ''kick'' ''abc'' 3]])
   \<and> (\<exists>e. parse_track sample_log10 (track_with_slots ''AudioTrack'' ''Drums'' [audio_clip ''kick'' ''abc'' 3]) False = Inl e)
   \<and> parse_root sample_log10 warp_doc = Inl (ValueError ''abc'')"
proof -
  let ?clip = "audio_clip ''kick'' ''abc'' 3"
  let ?track = "track_with_slots ''AudioTrack'' ''Drums'' [?clip]"
  have audio: "tag ?clip = ''AudioClip''"
    by (simp add: audio_clip_def)
  have time: "py_float (get ?clip ''Time'' ''0'') = Some (Num False 0)"
    by (simp add: audio_clip_def tree_defs flt_defs)
  have warped: "get_attr ?clip [Child ''IsWarped''] ''true'' = ''true''"
    by (simp add: audio_clip_def tree_defs)
  have wm: "get_attr ?clip [Child ''WarpMode''] ''0'' = ''abc''"
    by (simp add: audio_clip_def tree_defs)
  have mode: "py_int ''abc'' = None"
    by (simp add: flt_defs)
  have clip: "parse_clip sample_log10 ?clip = Inl (ValueError ''abc'')"
    using non_numeric_warp_mode_aborts [of ?clip sample_log10] audio time warped mode by (simp add: wm)
  have r3: "replicate 3 e = [e, e, e]" for e :: xml
    by (simp add: numeral_3_eq_3)
  have sess: "session_elems ?track = [?clip]"
    by (simp add: track_with_slots_def clip_slot_def audio_clip_def warp_markers_def r3 session_elems_def tree_defs)
  have arr: "arrangement_elems ?track = []"
    by (simp add: track_with_slots_def clip_slot_def audio_clip_def warp_markers_def r3 arrangement_elems_def
        tree_defs)
  have track: "parse_track sample_log10 ?track False = Inl (ValueError ''abc'')"
    unfolding parse_track_def sess arr by (simp add: parse_session_clip_def clip)
  have kids: "find_first warp_doc [Desc ''Tracks''] = Some (Elem ''Tracks'' [] [?track])"
    by (simp add: warp_doc_def track_with_slots_def clip_slot_def audio_clip_def warp_markers_def r3 tree_defs)
  have loop: "tracks_loop sample_log10 gm [?track] no_tracks = Inl (ValueError ''abc'')" for gm
    unfolding tracks_loop.simps track by simp
  have doc: "parse_root sample_log10 warp_doc = Inl (ValueError ''abc'')"
    unfolding parse_root_def kids option.case xml.sel loop by simp
  have mem: "?clip \<in> set (arrangement_elems ?track) \<union> set (session_elems ?track)"
    by (simp add: sess)
  have time': "py_float (get ?clip ''Time'' ''0'') \<noteq> None"
    using time by simp
  have mode': "py_int (get_attr ?clip [Child ''WarpMode''] ''0'') = None"
    using mode by (simp add: wm)
  have raised: "\<exists>e. parse_track sample_log10 ?track False = Inl e"
    using non_numeric_warp_mode_aborts [of ?clip sample_log10 ?track False, OF audio time' warped mode'] mem
    by blast
  from audio time warped wm mode clip sess kids raised doc show ?thesis by simp
qed

end
